theory Spec2Isabelle
  imports Main "HOL-Library.Word" "HOL-Library.Signed_Division"
begin

unbundle bit_operations_syntax

section \<open>Bytes, strings and errors\<close>

text \<open>
  A Go \<^verbatim>\<open>[]byte\<close> is a list of 8-bit words; a Go \<^verbatim>\<open>string\<close> is an Isabelle
  \<^typ>\<open>string\<close>, whose characters are bytes as well. The conversions
  \<^verbatim>\<open>[]byte(s)\<close> and \<^verbatim>\<open>string(b)\<close> keep every byte.
\<close>

type_synonym byte = "8 word"
type_synonym bytes = "byte list"

definition bytes_of :: "string \<Rightarrow> bytes" where
  "bytes_of s = map (\<lambda>c. of_nat (of_char c)) s"

definition string_of :: "bytes \<Rightarrow> string" where
  "string_of b = map (\<lambda>x. char_of (unat x)) b"

text \<open>\<^verbatim>\<open>byte(' ')\<close>, the delimiter between the domain tag and the identity.\<close>

definition space :: byte where
  "space = 32"

text \<open>
  The package's sentinel errors (src/unnamed/part_001, lines 12-16), \<^verbatim>\<open>http.ErrNoCookie\<close>, and
  every other error value (of the base64 decoder, the random source, the OAuth client,
  the HTTP client, the JSON decoder, a callback), which carries its message. Go compares
  error values by identity: a foreign error never equals a sentinel, whatever it says.
\<close>

datatype error =
    ErrCookieExpired
  | ErrCookieDomain
  | ErrInvalidCipher
  | ErrNoCookie
  | ForeignError string

fun Error :: "error \<Rightarrow> string" where
  "Error ErrCookieExpired = ''cookie expired''"
| "Error ErrCookieDomain = ''cookie used for wrong domain''"
| "Error ErrInvalidCipher = ''Invalid Cipher: could not decrypt bytes provided''"
| "Error ErrNoCookie = ''http: named cookie not present''"
| "Error (ForeignError m) = m"

text \<open>A call either returns or panics; a panic leaves the handler without a result.\<close>

datatype 'a outcome = Panic | Return 'a

section \<open>Time\<close>

text \<open>
  A \<^verbatim>\<open>time.Time\<close> is kept here by what its methods return: \<open>sec\<close> is what
  \<^verbatim>\<open>t.Unix()\<close> returns, an \<^verbatim>\<open>int64\<close>, and \<open>nsec\<close> the nanoseconds within that
  second. A \<^verbatim>\<open>time.Duration\<close> is an \<^verbatim>\<open>int64\<close> count of nanoseconds, kept as an
  \<^typ>\<open>int\<close> inside the \<^verbatim>\<open>int64\<close> range. The functions of package time are not code
  of this package; they are modelled from the library.
\<close>

record Time =
  sec :: "64 word"
  nsec :: int

definition Second :: int where
  "Second = 1000000000"

definition Hour :: int where
  "Hour = 3600 * Second"

definition maxDuration :: int where
  "maxDuration = 2 ^ 63 - 1"

definition minDuration :: int where
  "minDuration = - (2 ^ 63)"

text \<open>
  Go does not keep the Unix second. It keeps the seconds since January 1 of the year 1,
  the Unix second plus \<^verbatim>\<open>unixToInternal\<close>, in an \<^verbatim>\<open>int64\<close>, and the sum wraps around:
  a Unix second from \<open>2^63 - 62135596800\<close> on has a negative internal second, which is
  an instant in the far past. \<^verbatim>\<open>t.Unix()\<close> takes the offset off again, wrapping back.
\<close>

definition unixToInternal :: "64 word" where
  "unixToInternal = 62135596800"

text \<open>\<^verbatim>\<open>t.sec()\<close>, the internal second of a time.\<close>

definition internal_sec :: "Time \<Rightarrow> 64 word" where
  "internal_sec t = sec t + unixToInternal"

text \<open>The time that Go keeps as the internal second \<open>i\<close> and the nanosecond \<open>n\<close>.\<close>

definition Time_of_internal :: "64 word \<Rightarrow> int \<Rightarrow> Time" where
  "Time_of_internal i n = \<lparr>sec = i - unixToInternal, nsec = n\<rparr>"

text \<open>
  \<^verbatim>\<open>time.Unix(sec, 0)\<close>: the time whose internal second is \<open>sec + unixToInternal\<close>,
  in \<^verbatim>\<open>int64\<close>.
\<close>

definition time_Unix :: "64 word \<Rightarrow> Time" where
  "time_Unix s = Time_of_internal (s + unixToInternal) 0"

text \<open>
  \<^verbatim>\<open>t.Sub(u)\<close>. Go takes the difference of the internal seconds and of the
  nanoseconds in \<^verbatim>\<open>int64\<close>; when adding it to \<open>u\<close> does not give \<open>t\<close> back, it
  returns the minimum duration if \<open>t\<close> is before \<open>u\<close> and the maximum otherwise. That is
  the difference of the two internal instants, cut to the \<^verbatim>\<open>int64\<close> range.
\<close>

definition Time_Sub :: "Time \<Rightarrow> Time \<Rightarrow> int" where
  "Time_Sub t u =
     (let d = (sint (internal_sec t) - sint (internal_sec u)) * Second + (nsec t - nsec u)
      in if maxDuration < d then maxDuration
         else if d < minDuration then minDuration
         else d)"

text \<open>\<^verbatim>\<open>time.Since(t)\<close> is \<^verbatim>\<open>time.Now().Sub(t)\<close>; the current time is an input.\<close>

definition time_Since :: "Time \<Rightarrow> Time \<Rightarrow> int" where
  "time_Since now t = Time_Sub now t"

text \<open>
  \<^verbatim>\<open>t.Add(d)\<close>: Go's division truncates towards zero, and the nanoseconds are
  brought back into one second.
\<close>

definition Time_Add :: "Time \<Rightarrow> int \<Rightarrow> Time" where
  "Time_Add t d =
     (let dsec = d sdiv 1000000000;
          ns = nsec t + d smod 1000000000
      in if 1000000000 \<le> ns then \<lparr>sec = sec t + word_of_int (dsec + 1), nsec = ns - 1000000000\<rparr>
         else if ns < 0 then \<lparr>sec = sec t + word_of_int (dsec - 1), nsec = ns + 1000000000\<rparr>
         else \<lparr>sec = sec t + word_of_int dsec, nsec = ns\<rparr>)"

section \<open>Big-endian integers and byte slices\<close>

text \<open>The eight bytes of a 64-bit value, most significant first.\<close>

definition BigEndian_bytes :: "64 word \<Rightarrow> bytes" where
  "BigEndian_bytes v =
     [ucast (drop_bit 56 v), ucast (drop_bit 48 v), ucast (drop_bit 40 v),
      ucast (drop_bit 32 v), ucast (drop_bit 24 v), ucast (drop_bit 16 v),
      ucast (drop_bit 8 v), ucast v]"

text \<open>
  \<^verbatim>\<open>binary.BigEndian.PutUint64(b, v)\<close> writes those bytes over \<open>b[0..7]\<close> and panics
  when \<open>b\<close> is shorter than eight bytes.
\<close>

definition BigEndian_PutUint64 :: "bytes \<Rightarrow> 64 word \<Rightarrow> bytes outcome" where
  "BigEndian_PutUint64 b v =
     (if length b < 8 then Panic else Return (BigEndian_bytes v @ drop 8 b))"

text \<open>
  \<^verbatim>\<open>binary.BigEndian.Uint64(b)\<close> reads \<open>b[0..7]\<close> and panics when \<open>b\<close> is shorter
  than eight bytes.
\<close>

definition BigEndian_Uint64 :: "bytes \<Rightarrow> 64 word outcome" where
  "BigEndian_Uint64 b =
     (if length b < 8 then Panic
      else Return
        (ucast (b ! 7) OR push_bit 8 (ucast (b ! 6)) OR push_bit 16 (ucast (b ! 5)) OR
         push_bit 24 (ucast (b ! 4)) OR push_bit 32 (ucast (b ! 3)) OR
         push_bit 40 (ucast (b ! 2)) OR push_bit 48 (ucast (b ! 1)) OR
         push_bit 56 (ucast (b ! 0))))"

text \<open>
  \<^verbatim>\<open>copy(dst[off:], src)\<close>: the slice expression panics when \<open>off\<close> is beyond the
  length of \<open>dst\<close>; the copy overwrites as many bytes as both sides have and leaves the
  rest of \<open>dst\<close> as it was.
\<close>

definition copy_at :: "bytes \<Rightarrow> nat \<Rightarrow> bytes \<Rightarrow> bytes outcome" where
  "copy_at dst off src =
     (if length dst < off then Panic
      else let n = min (length dst - off) (length src)
           in Return (take off dst @ take n src @ drop (off + n) dst))"

text \<open>
  \<^verbatim>\<open>bytes.Split(s, sep)\<close> for a separator of one byte, the only kind the package
  passes: the pieces of \<open>s\<close> between the occurrences of the separator, one piece more
  than there are occurrences.
\<close>

fun bytes_Split :: "bytes \<Rightarrow> byte \<Rightarrow> bytes list" where
  "bytes_Split [] c = [[]]"
| "bytes_Split (x # xs) c =
     (if x = c then [] # bytes_Split xs c
      else (case bytes_Split xs c of
              [] \<Rightarrow> [[x]]
            | p # ps \<Rightarrow> (x # p) # ps))"

text \<open>\<^verbatim>\<open>bytes.Join(s, sep)\<close>: the pieces with the separator between neighbours.\<close>

fun bytes_Join :: "bytes list \<Rightarrow> bytes \<Rightarrow> bytes" where
  "bytes_Join [] sep = []"
| "bytes_Join [p] sep = p"
| "bytes_Join (p # q # ps) sep = p @ sep @ bytes_Join (q # ps) sep"

section \<open>The libraries the package calls\<close>

text \<open>
  The package seals with \<^verbatim>\<open>secretbox\<close> (golang.org/x/crypto/nacl), encodes with
  \<^verbatim>\<open>base64.URLEncoding\<close>, and reaches the identity provider through the HTTP client
  and the JSON decoder. None of them is code of the package, so they are parameters:
  \<^item> \<open>box_seal m n k\<close> is the box \<^verbatim>\<open>secretbox.Seal\<close> computes for the message \<open>m\<close>
    under the nonce \<open>n\<close> and the key \<open>k\<close>;
  \<^item> \<open>box_open c n k\<close> is the message \<^verbatim>\<open>secretbox.Open\<close> recovers from the box
    \<open>c\<close>, or \<open>None\<close> when the authentication fails;
  \<^item> \<open>b64_encode\<close> and \<open>b64_decode\<close> are \<^verbatim>\<open>EncodeToString\<close> and
    \<^verbatim>\<open>DecodeString\<close> of \<^verbatim>\<open>base64.URLEncoding\<close>;
  \<^item> \<open>http_Get url auth\<close> is the outcome of building the GET request for \<open>url\<close>
    with the Authorization header \<open>auth\<close> and sending it;
  \<^item> \<open>json_Decode\<close> decodes a response body into a profile.
  The field \<^verbatim>\<open>Profile\<close> of the profile structure is \<open>ProfileURL\<close> here.
\<close>

record Profile =
  ID :: string
  Sub :: string
  Name :: string
  GivenName :: string
  FamilyName :: string
  ProfileURL :: string
  Picture :: string
  Email :: string
  EmailVerified :: bool
  Gender :: string
  Locale :: string

record http_Response =
  StatusCode :: int
  Status :: string
  Body :: string

record env =
  box_seal :: "bytes \<Rightarrow> bytes \<Rightarrow> bytes \<Rightarrow> bytes"
  box_open :: "bytes \<Rightarrow> bytes \<Rightarrow> bytes \<Rightarrow> bytes option"
  b64_encode :: "bytes \<Rightarrow> string"
  b64_decode :: "string \<Rightarrow> error + bytes"
  http_Get :: "string \<Rightarrow> string \<Rightarrow> error + http_Response"
  json_Decode :: "string \<Rightarrow> error + Profile"

text \<open>\<^verbatim>\<open>secretbox.Seal(out, message, nonce, key)\<close> appends the box to \<open>out\<close>.\<close>

definition secretbox_Seal :: "env \<Rightarrow> bytes \<Rightarrow> bytes \<Rightarrow> bytes \<Rightarrow> bytes \<Rightarrow> bytes" where
  "secretbox_Seal E out message nonce key = out @ box_seal E message nonce key"

text \<open>\<^verbatim>\<open>secretbox.Open(nil, box, nonce, key)\<close>: the message and whether it is authentic.\<close>

definition secretbox_Open :: "env \<Rightarrow> bytes \<Rightarrow> bytes \<Rightarrow> bytes \<Rightarrow> bytes option" where
  "secretbox_Open E box nonce key = box_open E box nonce key"

section \<open>key.go: the sealed token\<close>

text \<open>
  \<^verbatim>\<open>EncryptBytes\<close> (key.go, lines 17-25). The argument \<open>rnd\<close> is what
  \<^verbatim>\<open>rand.Read(nonce[:])\<close> gives: an error, or the 24 bytes that fill the nonce.
\<close>

definition EncryptBytes :: "env \<Rightarrow> error + bytes \<Rightarrow> bytes \<Rightarrow> bytes \<Rightarrow> error + bytes" where
  "EncryptBytes E rnd key b =
     (case rnd of
        Inl err \<Rightarrow> Inl err
      | Inr nonce \<Rightarrow> Inr (secretbox_Seal E nonce b nonce key))"

text \<open>\<^verbatim>\<open>DecryptBytes\<close> (key.go, lines 27-38).\<close>

definition DecryptBytes :: "env \<Rightarrow> bytes \<Rightarrow> bytes \<Rightarrow> error + bytes" where
  "DecryptBytes E key b =
     (if length b < 24 then Inl ErrInvalidCipher
      else let nonce = take 24 b
           in (case secretbox_Open E (drop 24 b) nonce key of
                 None \<Rightarrow> Inl ErrInvalidCipher
               | Some out \<Rightarrow> Inr out))"

text \<open>
  The cookie code calls \<^verbatim>\<open>encryptBytes\<close> and \<^verbatim>\<open>decryptBytes\<close>; the source files hold the
  two functions under their exported names only.
\<close>

definition encryptBytes :: "env \<Rightarrow> error + bytes \<Rightarrow> bytes \<Rightarrow> bytes \<Rightarrow> error + bytes" where
  "encryptBytes = EncryptBytes"

definition decryptBytes :: "env \<Rightarrow> bytes \<Rightarrow> bytes \<Rightarrow> error + bytes" where
  "decryptBytes = DecryptBytes"

section \<open>Requests and responses\<close>

text \<open>
  Of a request the handlers read the cookies it carries (name and value, in the order of
  the Cookie header), the text of its URL (\<^verbatim>\<open>r.URL.String()\<close>) and its form values
  (\<^verbatim>\<open>r.FormValue\<close> gives the empty string for a missing key).
\<close>

record Request =
  Cookies :: "(string \<times> string) list"
  URL :: string
  Form :: "(string \<times> string) list"

text \<open>\<^verbatim>\<open>r.Cookie(name)\<close>: the value of the first cookie of that name.\<close>

definition Request_Cookie :: "Request \<Rightarrow> string \<Rightarrow> error + string" where
  "Request_Cookie r name =
     (case map_of (Cookies r) name of
        None \<Rightarrow> Inl ErrNoCookie
      | Some v \<Rightarrow> Inr v)"

definition FormValue :: "Request \<Rightarrow> string \<Rightarrow> string" where
  "FormValue r k = (case map_of (Form r) k of None \<Rightarrow> [] | Some v \<Rightarrow> v)"

text \<open>The \<^verbatim>\<open>http.Cookie\<close> structure, with the fields the package sets.\<close>

record http_Cookie =
  Cookie_Name :: string
  Cookie_Value :: string
  Cookie_Expires :: Time
  Cookie_Path :: string
  Cookie_Domain :: string
  Cookie_Secure :: bool
  Cookie_HttpOnly :: bool

text \<open>
  What a handler has done to its \<^verbatim>\<open>http.ResponseWriter\<close>: the status code, once the
  header is written; the cookies handed to \<^verbatim>\<open>http.SetCookie\<close> and the target handed
  to \<^verbatim>\<open>http.Redirect\<close> before that; the body text written by \<^verbatim>\<open>http.Error\<close>. The
  header is written once: a later \<^verbatim>\<open>WriteHeader\<close> is ignored, and a header set after
  it is not sent. The record holds the cookie structures and the redirect target as the
  package passes them, before net/http serialises them (it drops a cookie whose name is
  not a valid token, and makes a relative target absolute); the short HTML body that
  \<^verbatim>\<open>http.Redirect\<close> adds to the answer of a GET request is left out.
\<close>

record ResponseWriter =
  status :: "nat option"
  SetCookies :: "http_Cookie list"
  Location :: "string option"
  body :: string

definition WriteHeader :: "ResponseWriter \<Rightarrow> nat \<Rightarrow> ResponseWriter" where
  "WriteHeader w code = (if status w = None then w\<lparr>status := Some code\<rparr> else w)"

text \<open>\<^verbatim>\<open>http.Error(w, msg, code)\<close>: the status and the message on a line of its own.\<close>

definition http_Error :: "ResponseWriter \<Rightarrow> string \<Rightarrow> nat \<Rightarrow> ResponseWriter" where
  "http_Error w msg code = (WriteHeader w code)\<lparr>body := body w @ msg @ [CHR 0x0A]\<rparr>"

definition http_SetCookie :: "ResponseWriter \<Rightarrow> http_Cookie \<Rightarrow> ResponseWriter" where
  "http_SetCookie w c =
     (if status w = None then w\<lparr>SetCookies := SetCookies w @ [c]\<rparr> else w)"

definition http_Redirect :: "ResponseWriter \<Rightarrow> Request \<Rightarrow> string \<Rightarrow> nat \<Rightarrow> ResponseWriter" where
  "http_Redirect w r url code =
     (if status w = None then WriteHeader (w\<lparr>Location := Some url\<rparr>) code else w)"

section \<open>The handler\<close>

text \<open>
  The \<^verbatim>\<open>Handler\<close> structure (src/unnamed/part_000, lines 14-85). Of the embedded
  \<^verbatim>\<open>oauth2.Config\<close> the handlers call \<^verbatim>\<open>AuthCodeURL\<close> and \<^verbatim>\<open>Exchange\<close>, which are
  fields here; a token is its access token. The keys are set (the pointers are not nil).
  An optional callback is \<open>None\<close> when the field is nil. A callback gets the response
  writer and returns it as it leaves it; callbacks read the profile and do not change
  it. The logger is used by no handler and is left out.
\<close>

record Handler =
  AuthCodeURL :: "string \<Rightarrow> string"
  Exchange :: "string \<Rightarrow> error + string"
  StateKey :: bytes
  CookieKey :: bytes
  Domain :: string
  CookieName :: string
  Service :: string
  UserInfo :: string
  WriteProfile :: "(ResponseWriter \<Rightarrow> Profile \<Rightarrow> error option \<times> ResponseWriter) option"
  FinalizeLogin :: "(ResponseWriter \<Rightarrow> Request \<Rightarrow> ResponseWriter) option"
  ACL :: "(Profile \<Rightarrow> error option) option"

section \<open>The cookie code (src/unnamed/part_001)\<close>

text \<open>\<^verbatim>\<open>cookieName\<close> (lines 18-23).\<close>

definition cookieName :: "Handler \<Rightarrow> string" where
  "cookieName h = (if CookieName h = [] then ''session'' else CookieName h)"

text \<open>
  The buffer \<open>tb\<close> that \<^verbatim>\<open>setCookie\<close> fills before it seals it (lines 26-37):
  \<^verbatim>\<open>make\<close> gives zero bytes, then the time, the domain with its delimiter and the
  payload are written at their offsets. \<^verbatim>\<open>uint64(now.Unix())\<close> keeps the bits of
  the seconds.
\<close>

definition setCookie_tb :: "Time \<Rightarrow> Handler \<Rightarrow> bytes \<Rightarrow> bytes outcome" where
  "setCookie_tb now h inp =
     (let dcheck = bytes_of (Domain h) @ [space];
          tb = replicate (length inp + 8 + length dcheck) 0
      in (case BigEndian_PutUint64 tb (sec now) of
            Panic \<Rightarrow> Panic
          | Return tb1 \<Rightarrow>
              (case copy_at tb1 8 dcheck of
                 Panic \<Rightarrow> Panic
               | Return tb2 \<Rightarrow> copy_at tb2 (8 + length dcheck) inp)))"

text \<open>
  \<^verbatim>\<open>setCookie\<close> (lines 25-53). \<open>now\<close> is what \<^verbatim>\<open>time.Now()\<close> returns and \<open>rnd\<close>
  what the random source gives to the encryption.
\<close>

definition setCookie ::
  "env \<Rightarrow> Time \<Rightarrow> error + bytes \<Rightarrow> Handler \<Rightarrow> ResponseWriter \<Rightarrow> bytes \<Rightarrow> ResponseWriter outcome"
where
  "setCookie E now rnd h w inp =
     (case setCookie_tb now h inp of
        Panic \<Rightarrow> Panic
      | Return tb \<Rightarrow>
          (case encryptBytes E rnd (CookieKey h) tb of
             Inl err \<Rightarrow> Return (http_Error w (Error err) 500)
           | Inr out \<Rightarrow>
               Return (http_SetCookie w
                 \<lparr>Cookie_Name = cookieName h,
                  Cookie_Value = b64_encode E out,
                  Cookie_Expires = Time_Add now (24 * Hour),
                  Cookie_Path = ''/'',
                  Cookie_Domain = Domain h,
                  Cookie_Secure = True,
                  Cookie_HttpOnly = True\<rparr>)))"

text \<open>
  The handler code calls the method as \<^verbatim>\<open>SetCookie\<close>; the source files hold it as
  \<^verbatim>\<open>setCookie\<close> only.
\<close>

definition SetCookie ::
  "env \<Rightarrow> Time \<Rightarrow> error + bytes \<Rightarrow> Handler \<Rightarrow> ResponseWriter \<Rightarrow> bytes \<Rightarrow> ResponseWriter outcome"
where
  "SetCookie = setCookie"

text \<open>
  What \<^verbatim>\<open>Cookie\<close> does with the decrypted bytes (lines 69-82): the timestamp is read
  without a length check, \<^verbatim>\<open>int64(ts)\<close> keeps its bits, and \<open>bb[0]\<close> and \<open>bb[1:]\<close>
  need a first piece.
\<close>

definition Cookie_check :: "Time \<Rightarrow> Handler \<Rightarrow> bytes \<Rightarrow> (error + bytes) outcome" where
  "Cookie_check now h b =
     (case BigEndian_Uint64 b of
        Panic \<Rightarrow> Panic
      | Return ts \<Rightarrow>
          if 24 * Hour < time_Since now (time_Unix ts) then Return (Inl ErrCookieExpired)
          else
            let b' = drop 8 b;
                dcheck = bytes_of (Domain h);
                bb = bytes_Split b' space
            in (case bb of
                  [] \<Rightarrow> Panic
                | bb0 # bb1 \<Rightarrow>
                    if bb0 \<noteq> dcheck then Return (Inl ErrCookieDomain)
                    else Return (Inr (bytes_Join bb1 [space]))))"

text \<open>\<^verbatim>\<open>Cookie\<close> (lines 55-83).\<close>

definition Cookie :: "env \<Rightarrow> Time \<Rightarrow> Handler \<Rightarrow> Request \<Rightarrow> (error + bytes) outcome" where
  "Cookie E now h r =
     (case Request_Cookie r (cookieName h) of
        Inl err \<Rightarrow> Return (Inl err)
      | Inr v \<Rightarrow>
          (case b64_decode E v of
             Inl err \<Rightarrow> Return (Inl err)
           | Inr inp \<Rightarrow>
               (case decryptBytes E (CookieKey h) inp of
                  Inl err \<Rightarrow> Return (Inl err)
                | Inr b \<Rightarrow> Cookie_check now h b)))"

section \<open>userinfo.go: the profile\<close>

text \<open>\<^verbatim>\<open>writeProfile\<close> (lines 11-16).\<close>

definition writeProfile ::
  "Handler \<Rightarrow> ResponseWriter \<Rightarrow> Profile \<Rightarrow> error option \<times> ResponseWriter"
where
  "writeProfile h w p =
     (case WriteProfile h of
        None \<Rightarrow> (None, w)
      | Some f \<Rightarrow> f w p)"

text \<open>Decimal digits, for the \<^verbatim>\<open>%d\<close> of \<^verbatim>\<open>fmt.Errorf\<close>.\<close>

fun show_nat :: "nat \<Rightarrow> string" where
  "show_nat n =
     (if n < 10 then [char_of (48 + n)]
      else show_nat (n div 10) @ [char_of (48 + n mod 10)])"

definition show_int :: "int \<Rightarrow> string" where
  "show_int i = (if i < 0 then CHR ''-'' # show_nat (nat (- i)) else show_nat (nat i))"

text \<open>
  \<^verbatim>\<open>GetUserInfo\<close> (lines 32-52). Building the request and sending it fail the same
  way (the error is returned as it is), so \<open>http_Get\<close> stands for both.
\<close>

definition GetUserInfo :: "env \<Rightarrow> Handler \<Rightarrow> string \<Rightarrow> error + Profile" where
  "GetUserInfo E h tok =
     (case http_Get E (UserInfo h) (''Bearer '' @ tok) of
        Inl err \<Rightarrow> Inl err
      | Inr res \<Rightarrow>
          if StatusCode res < 200 \<or> 299 < StatusCode res
          then Inl (ForeignError (''userinfo lookup error: '' @ Status res @ '', status: '' @
                      show_int (StatusCode res)))
          else (case json_Decode E (Body res) of
                  Inl err \<Rightarrow> Inl err
                | Inr v \<Rightarrow> Inr v))"

section \<open>The handler code (src/unnamed/part_000)\<close>

text \<open>\<^verbatim>\<open>finalizeLogin\<close> (lines 94-100).\<close>

definition finalizeLogin :: "Handler \<Rightarrow> ResponseWriter \<Rightarrow> Request \<Rightarrow> ResponseWriter" where
  "finalizeLogin h w r =
     (case FinalizeLogin h of
        Some f \<Rightarrow> f w r
      | None \<Rightarrow> http_Redirect w r ''/'' 307)"

text \<open>\<^verbatim>\<open>HandleLogoff\<close> (lines 136-146).\<close>

definition HandleLogoff :: "Handler \<Rightarrow> ResponseWriter \<Rightarrow> Request \<Rightarrow> ResponseWriter" where
  "HandleLogoff h w r =
     http_SetCookie w
       \<lparr>Cookie_Name = CookieName h,
        Cookie_Value = [],
        Cookie_Expires = time_Unix 0,
        Cookie_Path = ''/'',
        Cookie_Domain = Domain h,
        Cookie_Secure = True,
        Cookie_HttpOnly = True\<rparr>"

text \<open>\<^verbatim>\<open>HandleLogin\<close> (lines 108-133).\<close>

definition HandleLogin ::
  "env \<Rightarrow> Time \<Rightarrow> error + bytes \<Rightarrow> Handler \<Rightarrow> ResponseWriter \<Rightarrow> Request \<Rightarrow> ResponseWriter outcome"
where
  "HandleLogin E now rnd h w r =
     (case Cookie E now h r of
        Panic \<Rightarrow> Panic
      | Return (Inr _) \<Rightarrow> Return (finalizeLogin h w r)
      | Return (Inl err) \<Rightarrow>
          let w1 = (if err \<noteq> ErrNoCookie then HandleLogoff h w r else w);
              origin = URL r
          in (case EncryptBytes E rnd (StateKey h) (bytes_of origin) of
                Inl err \<Rightarrow> Return (http_Error w1 (Error err) 500)
              | Inr b \<Rightarrow>
                  let url = AuthCodeURL h (b64_encode E b)
                  in Return (http_Redirect w1 r url 307)))"

text \<open>
  Modelled from the spec: the method \<^verbatim>\<open>acl\<close> that \<^verbatim>\<open>HandleRedirect\<close> calls is not in
  the source files. The spec has the ACL collaborator optional, "absence means
  allow-all", as the field's comment has it ("By default all users are allowed") and as
  \<^verbatim>\<open>writeProfile\<close> treats its callback.
\<close>

definition acl :: "Handler \<Rightarrow> Profile \<Rightarrow> error option" where
  "acl h p =
     (case ACL h of
        None \<Rightarrow> None
      | Some f \<Rightarrow> f p)"

text \<open>
  \<^verbatim>\<open>HandleRedirect\<close> (lines 151-190). At line 177 the variable \<open>err\<close> still holds
  what \<^verbatim>\<open>GetUserInfo\<close> returned, which is nil there; the condition compares it with
  the result of \<^verbatim>\<open>acl\<close>, and the branch calls \<^verbatim>\<open>err.Error()\<close> on that same
  variable: a call on a nil interface value, which panics. At line 183 the result of
  \<^verbatim>\<open>writeProfile\<close> is dropped.
\<close>

definition HandleRedirect ::
  "env \<Rightarrow> Time \<Rightarrow> error + bytes \<Rightarrow> Handler \<Rightarrow> ResponseWriter \<Rightarrow> Request \<Rightarrow> ResponseWriter outcome"
where
  "HandleRedirect E now rnd h w r =
     (case b64_decode E (FormValue r ''state'') of
        Inl err \<Rightarrow> Return (http_Error w (Error err) 401)
      | Inr rawState \<Rightarrow>
     (case DecryptBytes E (StateKey h) rawState of
        Inl err \<Rightarrow> Return (http_Error w (Error err) 401)
      | Inr b \<Rightarrow>
     (let home = string_of b in
     (case Exchange h (FormValue r ''code'') of
        Inl err \<Rightarrow> Return (http_Error w (Error err) 401)
      | Inr tok \<Rightarrow>
     (case GetUserInfo E h tok of
        Inl err \<Rightarrow> Return (http_Error w (''userinfo request error: '' @ Error err) 500)
      | Inr up \<Rightarrow>
     (let err = (None :: error option) in
      if err \<noteq> acl h up
      then (case err of
              None \<Rightarrow> Panic
            | Some e \<Rightarrow> Return (http_Error w (''ACL error: '' @ Error e) 500))
      else
        let up1 = up\<lparr>ID := Service h @ ''_'' @ Sub up\<rparr>;
            w1 = snd (writeProfile h w up1)
        in (case SetCookie E now rnd h w1 (bytes_of (ID up1)) of
              Panic \<Rightarrow> Panic
            | Return w2 \<Rightarrow> Return (http_Redirect w2 r home 307))))))))"

section \<open>What the theorems assume of the libraries\<close>

text \<open>
  A box opens under the nonce and the key it was sealed with (nonces are 24 bytes, keys
  32), and the base64 decoder inverts the encoder.
\<close>

definition box_ok :: "env \<Rightarrow> bool" where
  "box_ok E \<longleftrightarrow>
     (\<forall>m n k. length n = 24 \<and> length k = 32 \<longrightarrow> box_open E (box_seal E m n k) n k = Some m)"

definition b64_ok :: "env \<Rightarrow> bool" where
  "b64_ok E \<longleftrightarrow> (\<forall>x. b64_decode E (b64_encode E x) = Inr x)"

text \<open>
  The instant of a time in nanoseconds since the Unix epoch, for stating how far apart
  two instants are: the instant of its internal second, less the offset.
\<close>

definition unix_nanos :: "Time \<Rightarrow> int" where
  "unix_nanos t = (sint (internal_sec t) - 62135596800) * 1000000000 + nsec t"

section \<open>A small instance for the examples\<close>

text \<open>
  An instance of the libraries that meets both assumptions, and a handler, a request and
  a response to run the package on: the box is the message behind 16 bytes taken from
  the key and the nonce, the encoding maps every byte to its character, the provider
  accepts the code \<open>good\<close> and answers the profile request with the subject \<open>42\<close>.
\<close>

definition demo_seal :: "bytes \<Rightarrow> bytes \<Rightarrow> bytes \<Rightarrow> bytes" where
  "demo_seal m n k = take 8 k @ take 8 n @ m"

definition demo_open :: "bytes \<Rightarrow> bytes \<Rightarrow> bytes \<Rightarrow> bytes option" where
  "demo_open c n k =
     (if 16 \<le> length c \<and> take 16 c = take 8 k @ take 8 n then Some (drop 16 c) else None)"

definition demo_profile :: Profile where
  "demo_profile =
     \<lparr>ID = [], Sub = ''42'', Name = ''Ada'', GivenName = ''Ada'', FamilyName = ''L'',
      ProfileURL = [], Picture = [], Email = ''ada@a.example'', EmailVerified = True,
      Gender = [], Locale = ''en''\<rparr>"

definition demo_env :: env where
  "demo_env =
     \<lparr>box_seal = demo_seal,
      box_open = demo_open,
      b64_encode = string_of,
      b64_decode = (\<lambda>s. Inr (bytes_of s)),
      http_Get = (\<lambda>url auth. Inr \<lparr>StatusCode = 200, Status = ''200 OK'', Body = ''sub=42''\<rparr>),
      json_Decode = (\<lambda>b. Inr demo_profile)\<rparr>"

definition demo_nonce :: bytes where
  "demo_nonce = replicate 24 9"

definition demo_handler :: Handler where
  "demo_handler =
     \<lparr>AuthCodeURL = (\<lambda>st. ''https://idp.example/auth?state='' @ st),
      Exchange = (\<lambda>code. if code = ''good'' then Inr ''tok'' else Inl (ForeignError ''bad code'')),
      StateKey = replicate 32 1,
      CookieKey = replicate 32 2,
      Domain = ''a.example'',
      CookieName = [],
      Service = ''google'',
      UserInfo = ''https://idp.example/userinfo'',
      WriteProfile = None,
      FinalizeLogin = None,
      ACL = None\<rparr>"

definition demo_writer :: ResponseWriter where
  "demo_writer = \<lparr>status = None, SetCookies = [], Location = None, body = []\<rparr>"

text \<open>The provider's callback for a login that started at \<open>/dashboard\<close>.\<close>

definition demo_callback :: Request where
  "demo_callback =
     \<lparr>Cookies = [],
      URL = ''/redirect'',
      Form = [(''state'', string_of (demo_nonce @ demo_seal (bytes_of ''/dashboard'') demo_nonce
                                      (replicate 32 1))),
              (''code'', ''good'')]\<rparr>"

text \<open>A request that carries the session cookies a response has set.\<close>

definition request_with :: "ResponseWriter \<Rightarrow> Request" where
  "request_with w =
     \<lparr>Cookies = map (\<lambda>c. (Cookie_Name c, Cookie_Value c)) (SetCookies w),
      URL = ''/protected'',
      Form = []\<rparr>"

text \<open>Instants: an issuance, and reads 23 hours, 24 hours and 24 hours and a nanosecond later.\<close>

definition demo_now :: Time where
  "demo_now = \<lparr>sec = 1700000000, nsec = 5\<rparr>"

definition demo_later :: Time where
  "demo_later = \<lparr>sec = 1700082800, nsec = 7\<rparr>"

definition demo_deadline :: Time where
  "demo_deadline = \<lparr>sec = 1700086400, nsec = 0\<rparr>"

definition demo_expired :: Time where
  "demo_expired = \<lparr>sec = 1700086400, nsec = 1\<rparr>"

text \<open>
  An issuance nine tenths into a second, and a read 23 hours, 59 minutes and 59.6 seconds
  after it.
\<close>

definition cx_issue :: Time where
  "cx_issue = \<lparr>sec = 1700000000, nsec = 900000000\<rparr>"

definition cx_read :: Time where
  "cx_read = \<lparr>sec = 1700086400, nsec = 500000000\<rparr>"

text \<open>
  The payload issued at \<open>demo_now\<close> for the subject \<open>google_42\<close>, and a request that
  presents it in the session cookie.
\<close>

definition demo_payload :: bytes where
  "demo_payload = BigEndian_bytes 1700000000 @ bytes_of ''a.example google_42''"

definition demo_session :: Request where
  "demo_session =
     \<lparr>Cookies = [(''session'',
         string_of (demo_nonce @ demo_seal demo_payload demo_nonce (replicate 32 2)))],
      URL = ''/protected'',
      Form = []\<rparr>"

text \<open>
  A request without a cookie, the state parameter that its login carries to the
  provider, an ACL that rejects everybody and a profile store that fails.
\<close>

definition demo_anonymous :: Request where
  "demo_anonymous = \<lparr>Cookies = [], URL = ''/protected'', Form = []\<rparr>"

definition demo_state :: string where
  "demo_state = string_of (demo_nonce @ demo_seal (bytes_of ''/protected'') demo_nonce (replicate 32 1))"

definition deny_all :: "Profile \<Rightarrow> error option" where
  "deny_all p = Some (ForeignError ''denied'')"

definition failing_store :: "ResponseWriter \<Rightarrow> Profile \<Rightarrow> error option \<times> ResponseWriter" where
  "failing_store w p = (Some (ForeignError ''database down''), w)"

text \<open>
  A request that presents, in the session cookie, any payload sealed under the cookie
  key of the example, and a finalize-login callback that answers the request itself.
\<close>

definition session_with :: "bytes \<Rightarrow> Request" where
  "session_with payload =
     \<lparr>Cookies = [(''session'',
         string_of (demo_nonce @ demo_seal payload demo_nonce (replicate 32 2)))],
      URL = ''/protected'',
      Form = []\<rparr>"

definition demo_welcome :: "ResponseWriter \<Rightarrow> Request \<Rightarrow> ResponseWriter" where
  "demo_welcome w r = (WriteHeader w 200)\<lparr>body := body w @ ''welcome''\<rparr>"

section \<open>Issuing a cookie and reading it back\<close>

text \<open>
  \<^verbatim>\<open>setCookie\<close> at the time \<open>t0\<close> on the response \<open>w\<close>, then \<^verbatim>\<open>Cookie\<close> at
  the time \<open>t1\<close> on a request that carries the cookies of that response.
\<close>

definition issue_then_read ::
  "env \<Rightarrow> Time \<Rightarrow> Time \<Rightarrow> bytes \<Rightarrow> Handler \<Rightarrow> ResponseWriter \<Rightarrow> bytes \<Rightarrow> (error + bytes) outcome"
where
  "issue_then_read E t0 t1 nonce h w subj =
     (case setCookie E t0 (Inr nonce) h w subj of
        Panic \<Rightarrow> Panic
      | Return w1 \<Rightarrow> Cookie E t1 h (request_with w1))"

section \<open>Lemmas on bytes and time\<close>

lemma length_bytes_of: "length (bytes_of s) = length s"
  by (simp add: bytes_of_def)

lemma string_of_bytes_of: "string_of (bytes_of s) = s"
  unfolding string_of_def bytes_of_def
  by (induction s) (simp_all add: unat_of_nat)

lemma byte_of_char_of: "of_nat (of_char (char_of (unat x) :: char)) = (x :: byte)"
proof -
  have "unat x < 256"
    using unsigned_less [of x] by simp
  then show ?thesis by simp
qed

lemma bytes_of_string_of: "bytes_of (string_of b) = b"
  unfolding string_of_def bytes_of_def
  by (induction b) (simp_all only: list.map byte_of_char_of)

lemma bit_byte_chunk:
  "bit (push_bit k (ucast (ucast (drop_bit k (v :: 64 word)) :: 8 word)) :: 64 word) n
     \<longleftrightarrow> k \<le> n \<and> n < k + 8 \<and> n < 64 \<and> bit v n"
  by (auto simp: bit_simps)

lemma bit_byte_chunk0:
  "bit (ucast (ucast (v :: 64 word) :: 8 word) :: 64 word) n \<longleftrightarrow> n < 8 \<and> bit v n"
  by (auto simp: bit_simps)

lemma be_word:
  fixes v :: "64 word"
  shows "ucast (ucast v :: 8 word) OR push_bit 8 (ucast (ucast (drop_bit 8 v) :: 8 word)) OR
        push_bit 16 (ucast (ucast (drop_bit 16 v) :: 8 word)) OR
        push_bit 24 (ucast (ucast (drop_bit 24 v) :: 8 word)) OR
        push_bit 32 (ucast (ucast (drop_bit 32 v) :: 8 word)) OR
        push_bit 40 (ucast (ucast (drop_bit 40 v) :: 8 word)) OR
        push_bit 48 (ucast (ucast (drop_bit 48 v) :: 8 word)) OR
        push_bit 56 (ucast (ucast (drop_bit 56 v) :: 8 word)) = v"
  apply (rule bit_word_eqI)
  apply (simp only: bit_or_iff bit_byte_chunk bit_byte_chunk0)
  subgoal for n
    apply (cases "bit v n")
     apply (simp_all only: simp_thms)
    apply (simp only: len_bit0 len_num1)
    apply arith
    done
  done

text \<open>Reading back the eight bytes of a value gives the value.\<close>

lemma Uint64_BigEndian_bytes: "BigEndian_Uint64 (BigEndian_bytes v @ rest) = Return v"
  by (simp add: BigEndian_Uint64_def BigEndian_bytes_def be_word)

lemma bit_pushed_byte:
  "bit (push_bit j (ucast (a :: 8 word)) :: 64 word) m
     \<longleftrightarrow> j \<le> m \<and> m < 64 \<and> m < j + 8 \<and> bit a (m - j)"
  by (auto simp: bit_simps dest: bit_imp_le_length)

lemma bit_ucast_byte:
  "bit (ucast (a :: 8 word) :: 64 word) m \<longleftrightarrow> m < 8 \<and> bit a m"
  by (auto simp: bit_simps dest: bit_imp_le_length)

lemma bit_low_byte:
  "bit (ucast (w :: 64 word) :: 8 word) n \<longleftrightarrow> n < 8 \<and> bit w n"
  by (auto simp: bit_simps)

lemmas be_bits = bit_low_byte bit_drop_bit_eq o_apply bit_or_iff bit_pushed_byte bit_ucast_byte

lemma be_bytes_word:
  fixes a0 a1 a2 a3 a4 a5 a6 a7 :: byte
  defines "w \<equiv> (ucast a7 OR push_bit 8 (ucast a6) OR push_bit 16 (ucast a5) OR
         push_bit 24 (ucast a4) OR push_bit 32 (ucast a3) OR
         push_bit 40 (ucast a2) OR push_bit 48 (ucast a1) OR
         push_bit 56 (ucast a0) :: 64 word)"
  shows "BigEndian_bytes w = [a0, a1, a2, a3, a4, a5, a6, a7]"
proof -
  have "ucast (drop_bit 56 w) = a0"
    unfolding w_def by (rule bit_word_eqI) (simp only: be_bits, simp)
  moreover have "ucast (drop_bit 48 w) = a1"
    unfolding w_def by (rule bit_word_eqI) (simp only: be_bits, simp)
  moreover have "ucast (drop_bit 40 w) = a2"
    unfolding w_def by (rule bit_word_eqI) (simp only: be_bits, simp)
  moreover have "ucast (drop_bit 32 w) = a3"
    unfolding w_def by (rule bit_word_eqI) (simp only: be_bits, simp)
  moreover have "ucast (drop_bit 24 w) = a4"
    unfolding w_def by (rule bit_word_eqI) (simp only: be_bits, simp)
  moreover have "ucast (drop_bit 16 w) = a5"
    unfolding w_def by (rule bit_word_eqI) (simp only: be_bits, simp)
  moreover have "ucast (drop_bit 8 w) = a6"
    unfolding w_def by (rule bit_word_eqI) (simp only: be_bits, simp)
  moreover have "ucast w = a7"
    unfolding w_def by (rule bit_word_eqI) (simp only: be_bits, simp)
  ultimately show ?thesis by (simp add: BigEndian_bytes_def)
qed

lemma eight_bytes:
  assumes "8 \<le> length (b :: 'a list)"
  obtains a0 a1 a2 a3 a4 a5 a6 a7 rest
  where "b = a0 # a1 # a2 # a3 # a4 # a5 # a6 # a7 # rest"
  using assms by (auto simp: numeral_eq_Suc Suc_le_length_iff)

text \<open>Every eight bytes are the bytes of the value read from them.\<close>

lemma BigEndian_bytes_Uint64:
  assumes "8 \<le> length b"
  shows "\<exists>ts. BigEndian_Uint64 b = Return ts \<and> take 8 b = BigEndian_bytes ts"
proof -
  from assms obtain a0 a1 a2 a3 a4 a5 a6 a7 rest
    where b: "b = a0 # a1 # a2 # a3 # a4 # a5 # a6 # a7 # rest" by (rule eight_bytes)
  show ?thesis
    unfolding b by (simp add: BigEndian_Uint64_def be_bytes_word)
qed

lemma length_BigEndian_bytes: "length (BigEndian_bytes v) = 8"
  by (simp add: BigEndian_bytes_def)

text \<open>\<^verbatim>\<open>time.Unix(s, 0).Unix()\<close> is \<open>s\<close> again, whatever the internal second.\<close>

lemma time_Unix_eq: "time_Unix s = \<lparr>sec = s, nsec = 0\<rparr>"
  by (simp add: time_Unix_def Time_of_internal_def)

lemma internal_sec_time_Unix: "internal_sec (time_Unix s) = s + 62135596800"
  by (simp add: time_Unix_eq internal_sec_def unixToInternal_def)

lemmas instant_defs = unix_nanos_def internal_sec_def unixToInternal_def time_Unix_eq

text \<open>Adding the offset to a second, below the wrap and from the wrap on.\<close>

lemma sint_internal_plain:
  assumes "sint (s :: 64 word) < 9223371974719179008"
  shows "sint (s + 62135596800) = sint s + 62135596800"
proof -
  have "- (2 ^ 63) \<le> sint s"
    using sint_ge [of s] by simp
  with assms show ?thesis
    by (simp add: sint_word_ariths signed_take_bit_int_eq_self)
qed

lemma sint_internal_wrapped:
  assumes "9223371974719179008 \<le> sint (s :: 64 word)"
  shows "sint (s + 62135596800) = sint s + 62135596800 - 18446744073709551616"
proof -
  have lt: "sint s < 2 ^ 63"
    using sint_lt [of s] by simp
  have "sint (s + 62135596800) = signed_take_bit 63 (sint s + 62135596800)"
    by (simp add: sint_word_ariths)
  also have "\<dots> = take_bit 64 (sint s + 62135596800 + 2 ^ 63) - 2 ^ 63"
    by (simp add: signed_take_bit_eq_take_bit_shift)
  also have "take_bit 64 (sint s + 62135596800 + 2 ^ 63) =
      (sint s + 62135596800 + 2 ^ 63) mod 2 ^ 64"
    by (simp add: take_bit_eq_mod)
  also have "\<dots> = sint s + 62135596800 + 2 ^ 63 - 2 ^ 64"
    using assms lt by (simp add: mod_pos_geq)
  finally show ?thesis by simp
qed

text \<open>
  The instant that \<^verbatim>\<open>time.Unix\<close> makes of a second: the second itself below the wrap,
  and \<open>2^64\<close> seconds earlier from the wrap on.
\<close>

lemma unix_nanos_time_Unix:
  assumes "sint s < 9223371974719179008"
  shows "unix_nanos (time_Unix s) = sint s * 1000000000"
  using sint_internal_plain [OF assms] by (simp add: instant_defs)

lemma unix_nanos_time_Unix_wrapped:
  assumes "9223371974719179008 \<le> sint s"
  shows "unix_nanos (time_Unix s) = (sint s - 18446744073709551616) * 1000000000"
  using sint_internal_wrapped [OF assms] by (simp add: instant_defs)

text \<open>The expiry test, as a comparison of instants: the saturation does not change it.\<close>

lemma expired_iff:
  "24 * Hour < time_Since now (time_Unix ts)
     \<longleftrightarrow> 24 * Hour < unix_nanos now - unix_nanos (time_Unix ts)"
  by (simp add: time_Since_def Time_Sub_def unix_nanos_def Hour_def Second_def
      maxDuration_def minDuration_def Let_def algebra_simps)

text \<open>Splitting at the delimiter and joining the pieces again.\<close>

lemma bytes_Split_first:
  "bytes_Split s c =
     takeWhile (\<lambda>x. x \<noteq> c) s #
       (case dropWhile (\<lambda>x. x \<noteq> c) s of [] \<Rightarrow> [] | _ # rest \<Rightarrow> bytes_Split rest c)"
  by (induction s) (auto split: list.splits)

lemma bytes_Join_Split: "bytes_Join (bytes_Split s c) [c] = s"
proof (induction s)
  case Nil
  then show ?case by simp
next
  case (Cons x xs)
  show ?case
  proof (cases "x = c")
    case True
    then show ?thesis using Cons
      by (cases "bytes_Split xs c") (auto split: list.splits)
  next
    case False
    then show ?thesis using Cons
      apply (cases "bytes_Split xs c")
       apply simp
      subgoal for p ps
        by (cases ps) auto
      done
  qed
qed

lemma bytes_Join_tl_Split:
  "bytes_Join (tl (bytes_Split s c)) [c] = drop 1 (dropWhile (\<lambda>x. x \<noteq> c) s)"
proof (cases "dropWhile (\<lambda>x. x \<noteq> c) s")
  case Nil
  show ?thesis by (subst bytes_Split_first) (simp add: Nil)
next
  case (Cons y rest)
  show ?thesis by (subst bytes_Split_first) (simp add: Cons bytes_Join_Split)
qed

lemma bytes_Split_hd_tl:
  "bytes_Split s c = takeWhile (\<lambda>x. x \<noteq> c) s # tl (bytes_Split s c)"
  by (induction s) (auto split: list.splits)

lemma takeWhile_tag:
  "c \<notin> set d \<Longrightarrow> takeWhile (\<lambda>x. x \<noteq> c) (d @ c # s) = d"
  by (induction d) auto

lemma dropWhile_tag:
  "c \<notin> set d \<Longrightarrow> dropWhile (\<lambda>x. x \<noteq> c) (d @ c # s) = c # s"
  by (induction d) auto

lemma BigEndian_bytes_inj: "BigEndian_bytes a = BigEndian_bytes b \<Longrightarrow> a = b"
  using Uint64_BigEndian_bytes [of a "[]"] Uint64_BigEndian_bytes [of b "[]"] by simp

section \<open>Lemmas on the small instance and on sealing\<close>

lemma demo_box_ok: "box_ok demo_env"
  by (simp add: box_ok_def demo_env_def demo_seal_def demo_open_def)

lemma demo_b64_ok: "b64_ok demo_env"
  by (simp add: b64_ok_def demo_env_def bytes_of_string_of)

lemma box_okD:
  "box_ok E \<Longrightarrow> length n = 24 \<Longrightarrow> length k = 32 \<Longrightarrow>
     box_open E (box_seal E m n k) n k = Some m"
  by (simp add: box_ok_def)

lemma b64_okD: "b64_ok E \<Longrightarrow> b64_decode E (b64_encode E x) = Inr x"
  by (simp add: b64_ok_def)

lemma EncryptBytes_Inr:
  "EncryptBytes E (Inr nonce) k m = Inr (nonce @ box_seal E m nonce k)"
  by (simp add: EncryptBytes_def secretbox_Seal_def)

lemma DecryptBytes_sealed:
  assumes "box_ok E" and "length k = 32" and "length nonce = 24"
  shows "DecryptBytes E k (nonce @ box_seal E m nonce k) = Inr m"
  using assms by (simp add: DecryptBytes_def secretbox_Open_def box_okD)

lemma demo_handler_simps:
  "CookieKey demo_handler = replicate 32 2" "StateKey demo_handler = replicate 32 1"
  "Domain demo_handler = ''a.example''" "CookieName demo_handler = []"
  "Service demo_handler = ''google''" "ACL demo_handler = None"
  "WriteProfile demo_handler = None" "FinalizeLogin demo_handler = None"
  "UserInfo demo_handler = ''https://idp.example/userinfo''"
  by (simp_all add: demo_handler_def)

lemma demo_writer_simps:
  "status demo_writer = None" "SetCookies demo_writer = []" "Location demo_writer = None"
  "body demo_writer = []"
  by (simp_all add: demo_writer_def)

lemma demo_stamp: "BigEndian_bytes 1700000000 = [0, 0, 0, 0, 101, 83, 241, 0]"
  by (simp add: BigEndian_bytes_def drop_bit_eq_div)

lemma demo_domain: "bytes_of ''a.example'' = [97, 46, 101, 120, 97, 109, 112, 108, 101]"
  by (simp add: bytes_of_def)

lemma space_demo_domain: "space \<notin> set (bytes_of (Domain demo_handler))"
  by (simp add: demo_handler_simps demo_domain space_def)

lemma demo_payload_rest:
  "length demo_payload = 27" "take 8 demo_payload = BigEndian_bytes 1700000000"
  "drop 8 demo_payload = bytes_of ''a.example google_42''"
  by (simp_all add: demo_payload_def length_BigEndian_bytes length_bytes_of)

lemma demo_subject:
  "takeWhile (\<lambda>x. x \<noteq> space) (bytes_of ''a.example google_42'') = bytes_of ''a.example''"
  "drop 1 (dropWhile (\<lambda>x. x \<noteq> space) (bytes_of ''a.example google_42'')) = bytes_of ''google_42''"
  by (simp_all add: bytes_of_def space_def)

section \<open>Lemmas on the cookie\<close>

text \<open>The buffer that is sealed, and the cookie that is set when the nonce is drawn.\<close>

lemma setCookie_tb_eq:
  "setCookie_tb now h inp =
     Return (BigEndian_bytes (sec now) @ bytes_of (Domain h) @ [space] @ inp)"
proof -
  let ?dcheck = "bytes_of (Domain h) @ [space]"
  let ?stamp = "BigEndian_bytes (sec now)"
  have put: "BigEndian_PutUint64 (replicate (length inp + 8 + length ?dcheck) 0) (sec now) =
      Return (?stamp @ replicate (length ?dcheck + length inp) 0)"
    by (simp add: BigEndian_PutUint64_def add.commute)
  have domain: "copy_at (?stamp @ replicate (length ?dcheck + length inp) 0) 8 ?dcheck =
      Return (?stamp @ ?dcheck @ replicate (length inp) 0)"
    by (simp add: copy_at_def length_BigEndian_bytes)
  have payload: "copy_at (?stamp @ ?dcheck @ replicate (length inp) 0) (8 + length ?dcheck) inp =
      Return (?stamp @ ?dcheck @ inp)"
    by (simp add: copy_at_def length_BigEndian_bytes)
  show ?thesis
    unfolding setCookie_tb_def Let_def put outcome.case domain payload by simp
qed

lemma setCookie_Inr:
  "setCookie E now (Inr nonce) h w inp =
     Return (http_SetCookie w
       \<lparr>Cookie_Name = cookieName h,
        Cookie_Value = b64_encode E (nonce @ box_seal E
          (BigEndian_bytes (sec now) @ bytes_of (Domain h) @ [space] @ inp) nonce (CookieKey h)),
        Cookie_Expires = Time_Add now (24 * Hour),
        Cookie_Path = ''/'',
        Cookie_Domain = Domain h,
        Cookie_Secure = True,
        Cookie_HttpOnly = True\<rparr>)"
  by (simp add: setCookie_def setCookie_tb_eq encryptBytes_def EncryptBytes_Inr)

lemma Time_Add_24h:
  "0 \<le> nsec now \<Longrightarrow> nsec now < 1000000000 \<Longrightarrow>
     Time_Add now (24 * Hour) = \<lparr>sec = sec now + 86400, nsec = nsec now\<rparr>"
  by (simp add: Time_Add_def Hour_def Second_def signed_divide_int_def signed_modulo_int_def Let_def)

text \<open>What \<^verbatim>\<open>Cookie\<close> makes of the decrypted bytes.\<close>

lemma Cookie_check_short: "length b < 8 \<Longrightarrow> Cookie_check now h b = Panic"
  by (simp add: Cookie_check_def BigEndian_Uint64_def)

lemma Cookie_check_eq:
  assumes "8 \<le> length b"
  shows "\<exists>ts. take 8 b = BigEndian_bytes ts \<and>
     Cookie_check now h b = Return
       (if 24 * Hour < unix_nanos now - unix_nanos (time_Unix ts) then Inl ErrCookieExpired
        else if takeWhile (\<lambda>x. x \<noteq> space) (drop 8 b) \<noteq> bytes_of (Domain h)
          then Inl ErrCookieDomain
        else Inr (drop 1 (dropWhile (\<lambda>x. x \<noteq> space) (drop 8 b))))"
proof -
  from BigEndian_bytes_Uint64 [OF assms] obtain ts
    where ts: "BigEndian_Uint64 b = Return ts" "take 8 b = BigEndian_bytes ts" by blast
  have split: "bytes_Split (drop 8 b) space =
      takeWhile (\<lambda>x. x \<noteq> space) (drop 8 b) # tl (bytes_Split (drop 8 b) space)"
    by (rule bytes_Split_hd_tl)
  have "Cookie_check now h b = Return
       (if 24 * Hour < unix_nanos now - unix_nanos (time_Unix ts) then Inl ErrCookieExpired
        else if takeWhile (\<lambda>x. x \<noteq> space) (drop 8 b) \<noteq> bytes_of (Domain h)
          then Inl ErrCookieDomain
        else Inr (drop 1 (dropWhile (\<lambda>x. x \<noteq> space) (drop 8 b))))"
    unfolding Cookie_check_def ts(1) expired_iff Let_def
    by (subst split) (simp add: bytes_Join_tl_Split)
  with ts(2) show ?thesis by blast
qed

lemma Cookie_check_issued:
  "Cookie_check now h (BigEndian_bytes ts @ rest) = Return
       (if 24 * Hour < unix_nanos now - unix_nanos (time_Unix ts) then Inl ErrCookieExpired
        else if takeWhile (\<lambda>x. x \<noteq> space) rest \<noteq> bytes_of (Domain h)
          then Inl ErrCookieDomain
        else Inr (drop 1 (dropWhile (\<lambda>x. x \<noteq> space) rest)))"
proof -
  have split: "bytes_Split rest space =
      takeWhile (\<lambda>x. x \<noteq> space) rest # tl (bytes_Split rest space)"
    by (rule bytes_Split_hd_tl)
  have rest: "drop 8 (BigEndian_bytes ts @ rest) = rest"
    by (simp add: length_BigEndian_bytes)
  show ?thesis
    unfolding Cookie_check_def Uint64_BigEndian_bytes expired_iff Let_def rest
    by (subst split) (simp add: bytes_Join_tl_Split)
qed

lemma Cookie_opened_eq:
  assumes "Request_Cookie r (cookieName h) = Inr v"
    and "b64_decode E v = Inr ct"
    and "decryptBytes E (CookieKey h) ct = Inr b"
  shows "Cookie E now h r = Cookie_check now h b"
  using assms by (simp add: Cookie_def)

lemma issue_then_read_eq:
  assumes "box_ok E" and "b64_ok E" and "length (CookieKey h) = 32" and "length nonce = 24"
    and "status w = None" and "SetCookies w = []"
  shows "issue_then_read E now0 now1 nonce h w subj =
     Cookie_check now1 h (BigEndian_bytes (sec now0) @ bytes_of (Domain h) @ [space] @ subj)"
  using assms
  by (simp add: issue_then_read_def setCookie_Inr http_SetCookie_def request_with_def
      Cookie_def Request_Cookie_def b64_okD decryptBytes_def DecryptBytes_sealed)

lemma demo_session_opens:
  "Request_Cookie demo_session (cookieName demo_handler) =
     Inr (string_of (demo_nonce @ demo_seal demo_payload demo_nonce (replicate 32 2)))"
  "b64_decode demo_env (string_of (demo_nonce @ demo_seal demo_payload demo_nonce (replicate 32 2)))
     = Inr (demo_nonce @ demo_seal demo_payload demo_nonce (replicate 32 2))"
  "decryptBytes demo_env (CookieKey demo_handler)
     (demo_nonce @ demo_seal demo_payload demo_nonce (replicate 32 2)) = Inr demo_payload"
proof -
  show "Request_Cookie demo_session (cookieName demo_handler) =
     Inr (string_of (demo_nonce @ demo_seal demo_payload demo_nonce (replicate 32 2)))"
    by (simp add: Request_Cookie_def demo_session_def cookieName_def demo_handler_simps)
  show "b64_decode demo_env
     (string_of (demo_nonce @ demo_seal demo_payload demo_nonce (replicate 32 2)))
     = Inr (demo_nonce @ demo_seal demo_payload demo_nonce (replicate 32 2))"
    by (simp add: demo_env_def bytes_of_string_of)
  have "box_seal demo_env = demo_seal" by (simp add: demo_env_def)
  then show "decryptBytes demo_env (CookieKey demo_handler)
     (demo_nonce @ demo_seal demo_payload demo_nonce (replicate 32 2)) = Inr demo_payload"
    using DecryptBytes_sealed [of demo_env "replicate 32 2" demo_nonce demo_payload] demo_box_ok
    by (simp add: decryptBytes_def demo_handler_simps demo_nonce_def)
qed

lemma session_with_Cookie:
  "Cookie demo_env now demo_handler (session_with p) = Cookie_check now demo_handler p"
proof -
  have "box_seal demo_env = demo_seal" by (simp add: demo_env_def)
  then have "decryptBytes demo_env (CookieKey demo_handler)
      (demo_nonce @ demo_seal p demo_nonce (replicate 32 2)) = Inr p"
    using DecryptBytes_sealed [of demo_env "replicate 32 2" demo_nonce p] demo_box_ok
    by (simp add: decryptBytes_def demo_handler_simps demo_nonce_def)
  moreover have "Request_Cookie (session_with p) (cookieName demo_handler) =
      Inr (string_of (demo_nonce @ demo_seal p demo_nonce (replicate 32 2)))"
    by (simp add: Request_Cookie_def session_with_def cookieName_def demo_handler_simps)
  moreover have "b64_decode demo_env
      (string_of (demo_nonce @ demo_seal p demo_nonce (replicate 32 2))) =
      Inr (demo_nonce @ demo_seal p demo_nonce (replicate 32 2))"
    by (simp add: demo_env_def bytes_of_string_of)
  ultimately show ?thesis
    by (simp add: Cookie_def)
qed

section \<open>Lemmas on the handlers\<close>

lemma http_Redirect_fresh:
  "status w = None \<Longrightarrow> http_Redirect w r url code = w\<lparr>Location := Some url, status := Some code\<rparr>"
  by (simp add: http_Redirect_def WriteHeader_def)

lemma HandleLogoff_fresh:
  "status w = None \<Longrightarrow>
     HandleLogoff h w r = w\<lparr>SetCookies := SetCookies w @
       [\<lparr>Cookie_Name = CookieName h, Cookie_Value = [], Cookie_Expires = time_Unix 0,
         Cookie_Path = ''/'', Cookie_Domain = Domain h, Cookie_Secure = True,
         Cookie_HttpOnly = True\<rparr>]\<rparr>"
  by (simp add: HandleLogoff_def http_SetCookie_def)

text \<open>With a cookie name configured, logoff names the cookie that issuance sets.\<close>

lemma HandleLogoff_named:
  assumes "CookieName h \<noteq> []" and "status w = None"
  shows "HandleLogoff h w r = w\<lparr>SetCookies := SetCookies w @
       [\<lparr>Cookie_Name = cookieName h, Cookie_Value = [], Cookie_Expires = time_Unix 0,
         Cookie_Path = ''/'', Cookie_Domain = Domain h, Cookie_Secure = True,
         Cookie_HttpOnly = True\<rparr>]\<rparr>"
  using assms by (simp add: HandleLogoff_fresh cookieName_def)

lemma demo_anonymous_Cookie:
  "Cookie demo_env now demo_handler demo_anonymous = Return (Inl ErrNoCookie)"
  by (simp add: Cookie_def Request_Cookie_def demo_anonymous_def)

lemma demo_session_Cookie:
  "Cookie demo_env now demo_handler demo_session = Return
     (if 24 * Hour < unix_nanos now - unix_nanos (time_Unix 1700000000)
      then Inl ErrCookieExpired else Inr (bytes_of ''google_42''))"
  by (simp add: Cookie_opened_eq [OF demo_session_opens] demo_payload_def Cookie_check_issued
      demo_subject demo_handler_simps del: One_nat_def)

lemma demo_state_sealed:
  "EncryptBytes demo_env (Inr demo_nonce) (StateKey demo_handler) (bytes_of ''/protected'')
     = Inr (demo_nonce @ demo_seal (bytes_of ''/protected'') demo_nonce (replicate 32 1))"
  by (simp add: EncryptBytes_Inr demo_handler_simps demo_env_def)

lemma demo_callback_flow:
  "b64_decode demo_env (FormValue demo_callback ''state'') =
     Inr (demo_nonce @ demo_seal (bytes_of ''/dashboard'') demo_nonce (replicate 32 1))"
  "DecryptBytes demo_env (replicate 32 1)
     (demo_nonce @ demo_seal (bytes_of ''/dashboard'') demo_nonce (replicate 32 1))
     = Inr (bytes_of ''/dashboard'')"
  "FormValue demo_callback ''code'' = ''good''"
proof -
  show "b64_decode demo_env (FormValue demo_callback ''state'') =
     Inr (demo_nonce @ demo_seal (bytes_of ''/dashboard'') demo_nonce (replicate 32 1))"
    by (simp add: demo_env_def FormValue_def demo_callback_def bytes_of_string_of)
  have "box_seal demo_env = demo_seal" by (simp add: demo_env_def)
  then show "DecryptBytes demo_env (replicate 32 1)
     (demo_nonce @ demo_seal (bytes_of ''/dashboard'') demo_nonce (replicate 32 1))
     = Inr (bytes_of ''/dashboard'')"
    using DecryptBytes_sealed [of demo_env "replicate 32 1" demo_nonce "bytes_of ''/dashboard''"]
      demo_box_ok
    by (simp add: demo_nonce_def)
  show "FormValue demo_callback ''code'' = ''good''"
    by (simp add: FormValue_def demo_callback_def)
qed

lemma demo_GetUserInfo: "GetUserInfo demo_env h ''tok'' = Inr demo_profile"
  by (simp add: GetUserInfo_def demo_env_def)

section \<open>The sealed token (key.go)\<close>

text \<open>
  Claim C5. For every payload \<open>P\<close> and every 256-bit key \<open>K\<close>: when the random source
  fills the 24-byte nonce, \<^verbatim>\<open>EncryptBytes\<close> returns a sealed token, and
  \<^verbatim>\<open>DecryptBytes\<close> under the same key returns exactly \<open>P\<close> from it. The box itself is
  the library's; the package's part is the framing, the nonce in front of the box.
\<close>

theorem EncryptBytes_DecryptBytes_roundtrip:
  assumes "box_ok E" and "length K = 32" and "length nonce = 24"
  shows "\<exists>t. EncryptBytes E (Inr nonce) K P = Inr t \<and> DecryptBytes E K t = Inr P"
  using assms by (simp add: EncryptBytes_Inr DecryptBytes_sealed)

theorem EncryptBytes_DecryptBytes_roundtrip_witness:
  "\<exists>t. EncryptBytes demo_env (Inr demo_nonce) (replicate 32 1) [104, 105] = Inr t \<and>
       DecryptBytes demo_env (replicate 32 1) t = Inr [104, 105]"
  using EncryptBytes_DecryptBytes_roundtrip [of demo_env "replicate 32 1" demo_nonce "[104, 105]"]
    demo_box_ok
  by (simp add: demo_nonce_def)

text \<open>
  Claim C9. For every key and every input: when the input is shorter than the 24 bytes
  of the nonce, or when \<^verbatim>\<open>secretbox.Open\<close> reports that the authentication failed (on
  the rest of the input, under the first 24 bytes as the nonce), \<^verbatim>\<open>DecryptBytes\<close>
  returns \<^verbatim>\<open>ErrInvalidCipher\<close> and no plaintext.
\<close>

theorem DecryptBytes_rejects:
  assumes "length b < 24 \<or> secretbox_Open E (drop 24 b) (take 24 b) key = None"
  shows "DecryptBytes E key b = Inl ErrInvalidCipher \<and> (\<forall>p. DecryptBytes E key b \<noteq> Inr p)"
  using assms by (auto simp: DecryptBytes_def)

text \<open>An input of three bytes, and a token sealed under another key.\<close>

theorem DecryptBytes_rejects_witness:
  "DecryptBytes demo_env (replicate 32 1) [1, 2, 3] = Inl ErrInvalidCipher \<and>
   DecryptBytes demo_env (replicate 32 1)
     (demo_nonce @ demo_seal [104, 105] demo_nonce (replicate 32 2)) = Inl ErrInvalidCipher"
  using DecryptBytes_rejects [of "[1, 2, 3]" demo_env "replicate 32 1"]
    DecryptBytes_rejects [of "demo_nonce @ demo_seal [104, 105] demo_nonce (replicate 32 2)"
      demo_env "replicate 32 1"]
  by (simp add: demo_nonce_def demo_seal_def demo_env_def demo_open_def secretbox_Open_def)

section \<open>The session cookie (src/unnamed/part_001)\<close>

text \<open>
  Claim C6. The buffer sealed at issuance is the eight big-endian bytes of the issuance
  time in Unix seconds, then the bytes of the configured domain, then one space byte,
  then the subject-identity bytes, and nothing else. When the nonce is drawn, the cookie
  handed to \<^verbatim>\<open>http.SetCookie\<close> has the base64url encoding of the sealed buffer (the
  nonce, then the box) as its value and \<^verbatim>\<open>now.Add(24 * time.Hour)\<close> as its expiry,
  which is the same instant 86400 seconds later.
\<close>

theorem setCookie_layout:
  "setCookie_tb now h inp =
     Return (BigEndian_bytes (sec now) @ bytes_of (Domain h) @ [space] @ inp) \<and>
   setCookie E now (Inr nonce) h w inp =
     Return (http_SetCookie w
       \<lparr>Cookie_Name = cookieName h,
        Cookie_Value = b64_encode E (nonce @ box_seal E
          (BigEndian_bytes (sec now) @ bytes_of (Domain h) @ [space] @ inp) nonce (CookieKey h)),
        Cookie_Expires = Time_Add now (24 * Hour),
        Cookie_Path = ''/'',
        Cookie_Domain = Domain h,
        Cookie_Secure = True,
        Cookie_HttpOnly = True\<rparr>) \<and>
   (0 \<le> nsec now \<and> nsec now < 1000000000 \<longrightarrow>
      Time_Add now (24 * Hour) = \<lparr>sec = sec now + 86400, nsec = nsec now\<rparr>)"
proof -
  let ?tb = "BigEndian_bytes (sec now) @ bytes_of (Domain h) @ [space] @ inp"
  have buffer: "setCookie_tb now h inp = Return ?tb"
    by (rule setCookie_tb_eq)
  have sealed: "encryptBytes E (Inr nonce) (CookieKey h) ?tb =
      Inr (nonce @ box_seal E ?tb nonce (CookieKey h))"
    by (simp add: encryptBytes_def EncryptBytes_def secretbox_Seal_def)
  have cookie: "setCookie E now (Inr nonce) h w inp =
     Return (http_SetCookie w
       \<lparr>Cookie_Name = cookieName h,
        Cookie_Value = b64_encode E (nonce @ box_seal E ?tb nonce (CookieKey h)),
        Cookie_Expires = Time_Add now (24 * Hour),
        Cookie_Path = ''/'',
        Cookie_Domain = Domain h,
        Cookie_Secure = True,
        Cookie_HttpOnly = True\<rparr>)"
    unfolding setCookie_def buffer outcome.case sealed by simp
  have expiry: "Time_Add now (24 * Hour) = \<lparr>sec = sec now + 86400, nsec = nsec now\<rparr>"
    if "0 \<le> nsec now" and "nsec now < 1000000000"
    using that by (rule Time_Add_24h)
  from buffer cookie expiry show ?thesis by simp
qed

theorem setCookie_layout_witness:
  "setCookie_tb demo_now demo_handler (bytes_of ''google_42'') =
     Return ([0, 0, 0, 0, 101, 83, 241, 0] @ [97, 46, 101, 120, 97, 109, 112, 108, 101] @ [32] @
             [103, 111, 111, 103, 108, 101, 95, 52, 50]) \<and>
   Time_Add demo_now (24 * Hour) = \<lparr>sec = 1700086400, nsec = 5\<rparr>"
  using setCookie_layout [of demo_now demo_handler "bytes_of ''google_42''" demo_env demo_nonce
      demo_writer]
  by (simp add: demo_now_def demo_stamp demo_handler_simps demo_domain space_def)
     (simp add: bytes_of_def)

text \<open>
  Claim C10. Whatever issuance seals has at least nine bytes more than the configured
  domain: the buffer is built without a panic, and on it the read of the timestamp and
  the slice from offset 8 stay in bounds, so that \<^verbatim>\<open>Cookie\<close> does not panic on a
  cookie value that decrypts to it, at any time and for any configured domain of the
  reader.
\<close>

theorem issued_payload_in_bounds:
  "\<exists>tb. setCookie_tb now0 h0 inp = Return tb \<and>
      9 + length (bytes_of (Domain h0)) \<le> length tb \<and>
      BigEndian_Uint64 tb \<noteq> Panic \<and>
      Cookie_check now h tb \<noteq> Panic \<and>
      (\<forall>E r v ct. Request_Cookie r (cookieName h) = Inr v \<and> b64_decode E v = Inr ct \<and>
           decryptBytes E (CookieKey h) ct = Inr tb \<longrightarrow> Cookie E now h r \<noteq> Panic)"
proof -
  let ?tb = "BigEndian_bytes (sec now0) @ bytes_of (Domain h0) @ [space] @ inp"
  have 1: "setCookie_tb now0 h0 inp = Return ?tb" by (rule setCookie_tb_eq)
  have 2: "9 + length (bytes_of (Domain h0)) \<le> length ?tb"
    by (simp add: length_BigEndian_bytes)
  have 3: "BigEndian_Uint64 ?tb \<noteq> Panic" by (simp add: Uint64_BigEndian_bytes)
  have 4: "Cookie_check now h ?tb \<noteq> Panic" by (simp add: Cookie_check_issued)
  have 5: "Cookie E now h r \<noteq> Panic"
    if "Request_Cookie r (cookieName h) = Inr v" "b64_decode E v = Inr ct"
      "decryptBytes E (CookieKey h) ct = Inr ?tb" for E r v ct
    using Cookie_opened_eq [OF that] 4 by simp
  from 1 2 3 4 5 show ?thesis by blast
qed

theorem issued_payload_in_bounds_witness:
  "setCookie_tb demo_now demo_handler (bytes_of ''google_42'') = Return demo_payload \<and>
   9 + length (bytes_of (Domain demo_handler)) \<le> length demo_payload \<and>
   Cookie demo_env demo_expired demo_handler demo_session \<noteq> Panic"
proof -
  have tb: "setCookie_tb demo_now demo_handler (bytes_of ''google_42'') = Return demo_payload"
    by (simp add: setCookie_tb_eq demo_payload_def demo_now_def demo_handler_simps space_def
        bytes_of_def)
  from issued_payload_in_bounds [of demo_now demo_handler "bytes_of ''google_42''" demo_expired
      demo_handler]
  have "9 + length (bytes_of (Domain demo_handler)) \<le> length demo_payload"
    and "\<forall>E r v ct. Request_Cookie r (cookieName demo_handler) = Inr v \<and>
           b64_decode E v = Inr ct \<and> decryptBytes E (CookieKey demo_handler) ct = Inr demo_payload
           \<longrightarrow> Cookie E demo_expired demo_handler r \<noteq> Panic"
    unfolding tb by auto
  with tb demo_session_opens show ?thesis by blast
qed

text \<open>
  Claim C4, as amended. A cookie value that decodes and opens under the cookie key to a
  payload of at least eight bytes: \<^verbatim>\<open>Cookie\<close> returns \<^verbatim>\<open>ErrCookieExpired\<close> when the
  instant that \<^verbatim>\<open>time.Unix\<close> makes of the timestamp in the first eight bytes (read as
  \<^verbatim>\<open>int64\<close> seconds) is more than 24 hours before the current time, and passes one
  exactly 24 hours old or newer; then it returns \<^verbatim>\<open>ErrCookieDomain\<close> when the bytes
  before the first space differ from the configured domain; otherwise it returns the
  bytes after that first space. That instant is the timestamp's own second for a
  timestamp below \<open>2^63 - 62135596800\<close>; from there on the internal second wraps and the
  instant lies \<open>2^64\<close> seconds earlier.
\<close>

theorem Cookie_opened:
  assumes "Request_Cookie r (cookieName h) = Inr v"
    and "b64_decode E v = Inr ct"
    and "decryptBytes E (CookieKey h) ct = Inr b"
    and "8 \<le> length b"
  shows "\<exists>ts. take 8 b = BigEndian_bytes ts \<and>
     Cookie E now h r = Return
       (if 24 * Hour < unix_nanos now - unix_nanos (time_Unix ts) then Inl ErrCookieExpired
        else if takeWhile (\<lambda>x. x \<noteq> space) (drop 8 b) \<noteq> bytes_of (Domain h)
          then Inl ErrCookieDomain
        else Inr (drop 1 (dropWhile (\<lambda>x. x \<noteq> space) (drop 8 b)))) \<and>
     (sint ts < 9223371974719179008 \<longrightarrow>
        unix_nanos (time_Unix ts) = sint ts * 1000000000) \<and>
     (9223371974719179008 \<le> sint ts \<longrightarrow>
        unix_nanos (time_Unix ts) = (sint ts - 18446744073709551616) * 1000000000)"
proof -
  from Cookie_check_eq [OF assms(4), of now h] obtain ts
    where stamp: "take 8 b = BigEndian_bytes ts"
      and checked: "Cookie_check now h b = Return
       (if 24 * Hour < unix_nanos now - unix_nanos (time_Unix ts) then Inl ErrCookieExpired
        else if takeWhile (\<lambda>x. x \<noteq> space) (drop 8 b) \<noteq> bytes_of (Domain h)
          then Inl ErrCookieDomain
        else Inr (drop 1 (dropWhile (\<lambda>x. x \<noteq> space) (drop 8 b))))"
    by blast
  have opened: "Cookie E now h r = Cookie_check now h b"
    by (rule Cookie_opened_eq [OF assms(1-3)])
  have plain: "unix_nanos (time_Unix ts) = sint ts * 1000000000"
    if "sint ts < 9223371974719179008"
    using that by (rule unix_nanos_time_Unix)
  have wrapped: "unix_nanos (time_Unix ts) = (sint ts - 18446744073709551616) * 1000000000"
    if "9223371974719179008 \<le> sint ts"
    using that by (rule unix_nanos_time_Unix_wrapped)
  from stamp checked opened plain wrapped show ?thesis
    by (intro exI [of _ ts]) simp
qed

text \<open>
  The session issued at \<open>demo_now\<close>, read 23 hours later, exactly 24 hours later, a
  nanosecond after that, and by a handler configured for another domain.
\<close>

theorem Cookie_opened_witness:
  "Cookie demo_env demo_later demo_handler demo_session = Return (Inr (bytes_of ''google_42'')) \<and>
   Cookie demo_env demo_deadline demo_handler demo_session = Return (Inr (bytes_of ''google_42'')) \<and>
   Cookie demo_env demo_expired demo_handler demo_session = Return (Inl ErrCookieExpired) \<and>
   Cookie demo_env demo_expired (demo_handler\<lparr>Domain := ''b.example''\<rparr>) demo_session
     = Return (Inl ErrCookieExpired) \<and>
   Cookie demo_env demo_later (demo_handler\<lparr>Domain := ''b.example''\<rparr>) demo_session
     = Return (Inl ErrCookieDomain)"
proof -
  have len: "8 \<le> length demo_payload" by (simp add: demo_payload_rest)
  have opens': "Request_Cookie demo_session (cookieName (demo_handler\<lparr>Domain := ''b.example''\<rparr>)) =
     Inr (string_of (demo_nonce @ demo_seal demo_payload demo_nonce (replicate 32 2)))"
    "decryptBytes demo_env (CookieKey (demo_handler\<lparr>Domain := ''b.example''\<rparr>))
     (demo_nonce @ demo_seal demo_payload demo_nonce (replicate 32 2)) = Inr demo_payload"
    using demo_session_opens(1,3) by (simp_all add: cookieName_def demo_handler_simps)
  have diff: "bytes_of ''a.example'' \<noteq> bytes_of ''b.example''"
    by (simp add: bytes_of_def)
  have res: "Cookie demo_env now demo_handler demo_session = Return
       (if 24 * Hour < unix_nanos now - unix_nanos (time_Unix 1700000000)
        then Inl ErrCookieExpired
        else Inr (bytes_of ''google_42''))" for now
  proof -
    from Cookie_opened [OF demo_session_opens len, of now] obtain ts
      where ts: "take 8 demo_payload = BigEndian_bytes ts"
        and c: "Cookie demo_env now demo_handler demo_session = Return
          (if 24 * Hour < unix_nanos now - unix_nanos (time_Unix ts) then Inl ErrCookieExpired
           else if takeWhile (\<lambda>x. x \<noteq> space) (drop 8 demo_payload)
                     \<noteq> bytes_of (Domain demo_handler)
             then Inl ErrCookieDomain
           else Inr (drop 1 (dropWhile (\<lambda>x. x \<noteq> space) (drop 8 demo_payload))))"
      by blast
    from ts have "ts = 1700000000"
      by (simp add: demo_payload_rest BigEndian_bytes_inj)
    with c show ?thesis
      by (simp only: demo_payload_rest demo_subject demo_handler_simps) simp
  qed
  have res': "Cookie demo_env now (demo_handler\<lparr>Domain := ''b.example''\<rparr>) demo_session = Return
       (if 24 * Hour < unix_nanos now - unix_nanos (time_Unix 1700000000)
        then Inl ErrCookieExpired
        else Inl ErrCookieDomain)" for now
  proof -
    from Cookie_opened [OF opens'(1) demo_session_opens(2) opens'(2) len, of now] obtain ts
      where ts: "take 8 demo_payload = BigEndian_bytes ts"
        and c: "Cookie demo_env now (demo_handler\<lparr>Domain := ''b.example''\<rparr>) demo_session = Return
          (if 24 * Hour < unix_nanos now - unix_nanos (time_Unix ts) then Inl ErrCookieExpired
           else if takeWhile (\<lambda>x. x \<noteq> space) (drop 8 demo_payload)
                     \<noteq> bytes_of (Domain (demo_handler\<lparr>Domain := ''b.example''\<rparr>))
             then Inl ErrCookieDomain
           else Inr (drop 1 (dropWhile (\<lambda>x. x \<noteq> space) (drop 8 demo_payload))))"
      by blast
    from ts have "ts = 1700000000"
      by (simp add: demo_payload_rest BigEndian_bytes_inj)
    with c diff show ?thesis
      by (simp only: demo_payload_rest demo_subject) simp
  qed
  show ?thesis
    by (simp add: res res' instant_defs demo_later_def demo_deadline_def
        demo_expired_def Hour_def Second_def)
qed

text \<open>
  Claim C4 as stated fails twice. A payload of three bytes that opens under the cookie
  key has no timestamp, and the read panics instead of returning. And a timestamp of
  \<open>2^63 - 1\<close> seconds, later than the current time, does not pass: its internal second
  wraps, and the cookie is expired.
\<close>

theorem Cookie_opened_counterexample:
  "Cookie demo_env demo_later demo_handler (session_with [1, 2, 3]) = Panic \<and>
   unix_nanos demo_later < sint (9223372036854775807 :: 64 word) * 1000000000 \<and>
   Cookie demo_env demo_later demo_handler
     (session_with (BigEndian_bytes 9223372036854775807 @ bytes_of ''a.example google_42''))
     = Return (Inl ErrCookieExpired)"
proof -
  have short: "Cookie demo_env demo_later demo_handler (session_with [1, 2, 3]) = Panic"
    by (simp add: session_with_Cookie Cookie_check_short)
  have later: "unix_nanos demo_later < sint (9223372036854775807 :: 64 word) * 1000000000"
    by (simp add: instant_defs demo_later_def)
  have wrapped: "unix_nanos (time_Unix 9223372036854775807) =
      (sint (9223372036854775807 :: 64 word) - 18446744073709551616) * 1000000000"
    by (rule unix_nanos_time_Unix_wrapped) simp
  have expired: "Cookie demo_env demo_later demo_handler
     (session_with (BigEndian_bytes 9223372036854775807 @ bytes_of ''a.example google_42''))
     = Return (Inl ErrCookieExpired)"
    unfolding session_with_Cookie Cookie_check_issued wrapped
    by (simp add: unix_nanos_def internal_sec_def unixToInternal_def demo_later_def Hour_def
        Second_def)
  from short later expired show ?thesis by simp
qed

text \<open>
  Claim C7, as amended. For every subject identity, also one with spaces in it, and
  every domain without a space: a cookie issued on a fresh response and read back no
  later than 24 hours after the issuance time rounded down to the whole second (the
  timestamp it carries) gives back exactly the subject bytes. Everything after the
  first delimiter is the identity.
\<close>

theorem cookie_roundtrip:
  assumes "box_ok E" and "b64_ok E" and "length (CookieKey h) = 32" and "length nonce = 24"
    and "space \<notin> set (bytes_of (Domain h))"
    and "status w = None" and "SetCookies w = []"
    and "unix_nanos now1 - unix_nanos (time_Unix (sec now0)) \<le> 24 * Hour"
  shows "issue_then_read E now0 now1 nonce h w subj = Return (Inr subj)"
  using assms(5,8)
  by (simp add: issue_then_read_eq [OF assms(1-4,6,7)] Cookie_check_issued
      takeWhile_tag dropWhile_tag)

text \<open>An identity with a space in it, read 23 hours after the issuance.\<close>

theorem cookie_roundtrip_witness:
  "issue_then_read demo_env demo_now demo_later demo_nonce demo_handler demo_writer
     (bytes_of ''google_4 2'') = Return (Inr (bytes_of ''google_4 2''))"
  using cookie_roundtrip [of demo_env demo_handler demo_nonce demo_writer demo_later demo_now
      "bytes_of ''google_4 2''"]
    demo_box_ok demo_b64_ok space_demo_domain
  by (simp add: demo_handler_simps demo_writer_simps demo_nonce_def instant_defs demo_now_def
      demo_later_def Hour_def Second_def)

text \<open>
  Claim C7 as stated, with the 24 hours counted from the issuance itself, fails: the
  timestamp drops the fraction of the second, so a cookie issued at 0.9 s into a second
  and read 23 h 59 min 59.6 s later is 24 h and 0.5 s old for the reader.
\<close>

theorem cookie_roundtrip_counterexample:
  "box_ok demo_env \<and> b64_ok demo_env \<and> length (CookieKey demo_handler) = 32 \<and>
   length demo_nonce = 24 \<and> space \<notin> set (bytes_of (Domain demo_handler)) \<and>
   status demo_writer = None \<and> SetCookies demo_writer = [] \<and>
   0 \<le> unix_nanos cx_read - unix_nanos cx_issue \<and>
   unix_nanos cx_read - unix_nanos cx_issue \<le> 24 * Hour \<and>
   issue_then_read demo_env cx_issue cx_read demo_nonce demo_handler demo_writer
     (bytes_of ''google_42'') = Return (Inl ErrCookieExpired)"
proof -
  have "issue_then_read demo_env cx_issue cx_read demo_nonce demo_handler demo_writer
     (bytes_of ''google_42'') = Return (Inl ErrCookieExpired)"
    by (simp add: issue_then_read_eq demo_box_ok demo_b64_ok demo_handler_simps
        demo_writer_simps demo_nonce_def Cookie_check_issued instant_defs
        cx_issue_def cx_read_def Hour_def Second_def)
  moreover have "0 \<le> unix_nanos cx_read - unix_nanos cx_issue"
    "unix_nanos cx_read - unix_nanos cx_issue \<le> 24 * Hour"
    by (simp_all add: instant_defs cx_issue_def cx_read_def Hour_def Second_def)
  ultimately show ?thesis
    using demo_box_ok demo_b64_ok space_demo_domain
    by (simp add: demo_handler_simps demo_writer_simps demo_nonce_def)
qed

section \<open>The login flow (src/unnamed/part_000)\<close>

text \<open>
  Claim C8. The claim has \<^verbatim>\<open>HandleLogin\<close> go one of three ways on what \<^verbatim>\<open>Cookie\<close>
  returns, and has the third way clear the bad cookie. The code goes the three ways. On
  an identity it calls the configured finalize-login callback, or without one makes the
  temporary redirect to \<open>/\<close>, and does nothing else. On \<^verbatim>\<open>http.ErrNoCookie\<close> it
  redirects (307) to the provider's authorization URL for the state that is the
  base64url encoding of the request URL sealed under the state key. On any other error
  it calls \<^verbatim>\<open>HandleLogoff\<close> first and then makes the same redirect on the response
  that logoff left. The state exists when the sealing draws its nonce. But the logoff
  clears the bad cookie only with a cookie name configured: then its cookie bears the
  name that was read, an empty value and the expiry at the epoch. In the default
  configuration, with the cookie-name field empty, the cookie that was read is named
  \<open>session\<close> and the logoff cookie bears the empty name, so the bad cookie stays.
\<close>

theorem HandleLogin_dispatch:
  "(Cookie E now h r = Return (Inr ident) \<and> FinalizeLogin h = Some f \<longrightarrow>
      HandleLogin E now rnd h w r = Return (f w r)) \<and>
   (Cookie E now h r = Return (Inr ident) \<and> FinalizeLogin h = None \<longrightarrow>
      HandleLogin E now rnd h w r = Return (http_Redirect w r ''/'' 307)) \<and>
   (Cookie E now h r = Return (Inl ErrNoCookie) \<and>
    EncryptBytes E rnd (StateKey h) (bytes_of (URL r)) = Inr t \<longrightarrow>
      HandleLogin E now rnd h w r =
        Return (http_Redirect w r (AuthCodeURL h (b64_encode E t)) 307)) \<and>
   (Cookie E now h r = Return (Inl err) \<and> err \<noteq> ErrNoCookie \<and>
    EncryptBytes E rnd (StateKey h) (bytes_of (URL r)) = Inr t \<longrightarrow>
      HandleLogin E now rnd h w r =
        Return (http_Redirect (HandleLogoff h w r) r (AuthCodeURL h (b64_encode E t)) 307)) \<and>
   (CookieName h \<noteq> [] \<and> status w = None \<longrightarrow>
      HandleLogoff h w r = w\<lparr>SetCookies := SetCookies w @
        [\<lparr>Cookie_Name = cookieName h, Cookie_Value = [], Cookie_Expires = time_Unix 0,
          Cookie_Path = ''/'', Cookie_Domain = Domain h, Cookie_Secure = True,
          Cookie_HttpOnly = True\<rparr>]\<rparr>) \<and>
   (CookieName h = [] \<and> status w = None \<longrightarrow>
      cookieName h = ''session'' \<and>
      HandleLogoff h w r = w\<lparr>SetCookies := SetCookies w @
        [\<lparr>Cookie_Name = [], Cookie_Value = [], Cookie_Expires = time_Unix 0,
          Cookie_Path = ''/'', Cookie_Domain = Domain h, Cookie_Secure = True,
          Cookie_HttpOnly = True\<rparr>]\<rparr>)"
proof -
  have callback: "HandleLogin E now rnd h w r = Return (f w r)"
    if "Cookie E now h r = Return (Inr ident)" and "FinalizeLogin h = Some f"
    using that by (simp add: HandleLogin_def finalizeLogin_def)
  have default: "HandleLogin E now rnd h w r = Return (http_Redirect w r ''/'' 307)"
    if "Cookie E now h r = Return (Inr ident)" and "FinalizeLogin h = None"
    using that by (simp add: HandleLogin_def finalizeLogin_def)
  have absent: "HandleLogin E now rnd h w r =
      Return (http_Redirect w r (AuthCodeURL h (b64_encode E t)) 307)"
    if "Cookie E now h r = Return (Inl ErrNoCookie)"
      and "EncryptBytes E rnd (StateKey h) (bytes_of (URL r)) = Inr t"
    using that by (simp add: HandleLogin_def)
  have bad: "HandleLogin E now rnd h w r =
      Return (http_Redirect (HandleLogoff h w r) r (AuthCodeURL h (b64_encode E t)) 307)"
    if "Cookie E now h r = Return (Inl err)" and "err \<noteq> ErrNoCookie"
      and "EncryptBytes E rnd (StateKey h) (bytes_of (URL r)) = Inr t"
    using that by (simp add: HandleLogin_def)
  have cleared: "HandleLogoff h w r = w\<lparr>SetCookies := SetCookies w @
        [\<lparr>Cookie_Name = cookieName h, Cookie_Value = [], Cookie_Expires = time_Unix 0,
          Cookie_Path = ''/'', Cookie_Domain = Domain h, Cookie_Secure = True,
          Cookie_HttpOnly = True\<rparr>]\<rparr>"
    if "CookieName h \<noteq> []" and "status w = None"
    using that by (rule HandleLogoff_named)
  have read_name: "cookieName h = ''session''" if "CookieName h = []"
    using that by (simp add: cookieName_def)
  have stays: "HandleLogoff h w r = w\<lparr>SetCookies := SetCookies w @
        [\<lparr>Cookie_Name = [], Cookie_Value = [], Cookie_Expires = time_Unix 0,
          Cookie_Path = ''/'', Cookie_Domain = Domain h, Cookie_Secure = True,
          Cookie_HttpOnly = True\<rparr>]\<rparr>"
    if "CookieName h = []" and "status w = None"
    using that by (simp add: HandleLogoff_fresh)
  from callback default absent bad cleared read_name stays show ?thesis by blast
qed

text \<open>
  The handler of the example, whose cookie-name field is empty: the session read in
  time, without and with a finalize-login callback; a request without a cookie; the
  session read after its 24 hours, where the logoff cookie bears the empty name and not
  \<open>session\<close>; and the logoff of a handler with the cookie name \<open>sid\<close>.
\<close>

theorem HandleLogin_dispatch_witness:
  "HandleLogin demo_env demo_later (Inr demo_nonce) demo_handler demo_writer demo_session =
     Return (demo_writer\<lparr>Location := Some ''/'', status := Some 307\<rparr>) \<and>
   HandleLogin demo_env demo_later (Inr demo_nonce)
     (demo_handler\<lparr>FinalizeLogin := Some demo_welcome\<rparr>) demo_writer demo_session =
     Return (demo_writer\<lparr>status := Some 200, body := ''welcome''\<rparr>) \<and>
   HandleLogin demo_env demo_later (Inr demo_nonce) demo_handler demo_writer demo_anonymous =
     Return (demo_writer\<lparr>Location := Some (''https://idp.example/auth?state='' @ demo_state),
                          status := Some 307\<rparr>) \<and>
   Request_Cookie demo_session (cookieName demo_handler) \<noteq> Inl ErrNoCookie \<and>
   cookieName demo_handler = ''session'' \<and>
   HandleLogin demo_env demo_expired (Inr demo_nonce) demo_handler demo_writer demo_session =
     Return (demo_writer
       \<lparr>SetCookies :=
          [\<lparr>Cookie_Name = [], Cookie_Value = [], Cookie_Expires = \<lparr>sec = 0, nsec = 0\<rparr>,
            Cookie_Path = ''/'', Cookie_Domain = ''a.example'', Cookie_Secure = True,
            Cookie_HttpOnly = True\<rparr>],
        Location := Some (''https://idp.example/auth?state='' @ demo_state),
        status := Some 307\<rparr>) \<and>
   HandleLogoff (demo_handler\<lparr>CookieName := ''sid''\<rparr>) demo_writer demo_session =
     demo_writer
       \<lparr>SetCookies :=
          [\<lparr>Cookie_Name = ''sid'', Cookie_Value = [], Cookie_Expires = \<lparr>sec = 0, nsec = 0\<rparr>,
            Cookie_Path = ''/'', Cookie_Domain = ''a.example'', Cookie_Secure = True,
            Cookie_HttpOnly = True\<rparr>]\<rparr>"
proof -
  have late: "\<not> 24 * Hour < unix_nanos demo_later - unix_nanos (time_Unix 1700000000)"
    and expired: "24 * Hour < unix_nanos demo_expired - unix_nanos (time_Unix 1700000000)"
    by (simp_all add: instant_defs demo_later_def demo_expired_def Hour_def Second_def)
  have url: "URL demo_session = ''/protected''" "URL demo_anonymous = ''/protected''"
    by (simp_all add: demo_session_def demo_anonymous_def)
  have enc: "b64_encode demo_env
      (demo_nonce @ demo_seal (bytes_of ''/protected'') demo_nonce (replicate 32 1)) = demo_state"
    by (simp add: demo_env_def demo_state_def)
  have auth: "AuthCodeURL demo_handler st = ''https://idp.example/auth?state='' @ st" for st
    by (simp add: demo_handler_def)
  have opens: "Request_Cookie demo_session
        (cookieName (demo_handler\<lparr>FinalizeLogin := Some demo_welcome\<rparr>)) =
      Inr (string_of (demo_nonce @ demo_seal demo_payload demo_nonce (replicate 32 2)))"
    "decryptBytes demo_env (CookieKey (demo_handler\<lparr>FinalizeLogin := Some demo_welcome\<rparr>))
      (demo_nonce @ demo_seal demo_payload demo_nonce (replicate 32 2)) = Inr demo_payload"
    using demo_session_opens(1,3) by (simp_all add: cookieName_def demo_handler_simps)
  have greeted: "Cookie demo_env demo_later (demo_handler\<lparr>FinalizeLogin := Some demo_welcome\<rparr>)
      demo_session = Return (Inr (bytes_of ''google_42''))"
    using Cookie_opened_eq [OF opens(1) demo_session_opens(2) opens(2), of demo_later] late
    by (simp add: demo_payload_def Cookie_check_issued demo_subject demo_handler_simps
        del: One_nat_def)
  note d = HandleLogin_dispatch [where E = demo_env and w = demo_writer
      and rnd = "Inr demo_nonce"
      and t = "demo_nonce @ demo_seal (bytes_of ''/protected'') demo_nonce (replicate 32 1)"]
  have 1: "HandleLogin demo_env demo_later (Inr demo_nonce) demo_handler demo_writer demo_session =
     Return (demo_writer\<lparr>Location := Some ''/'', status := Some 307\<rparr>)"
    using d [where h = demo_handler and now = demo_later and r = demo_session
        and ident = "bytes_of ''google_42''"] late
    by (simp add: demo_session_Cookie demo_handler_simps http_Redirect_fresh demo_writer_simps)
  have 2: "HandleLogin demo_env demo_later (Inr demo_nonce)
     (demo_handler\<lparr>FinalizeLogin := Some demo_welcome\<rparr>) demo_writer demo_session =
     Return (demo_writer\<lparr>status := Some 200, body := ''welcome''\<rparr>)"
    using d [where h = "demo_handler\<lparr>FinalizeLogin := Some demo_welcome\<rparr>"
        and now = demo_later and r = demo_session and ident = "bytes_of ''google_42''"
        and f = demo_welcome] late
    by (simp add: greeted demo_welcome_def WriteHeader_def demo_writer_simps)
  have 3: "HandleLogin demo_env demo_later (Inr demo_nonce) demo_handler demo_writer demo_anonymous =
     Return (demo_writer\<lparr>Location := Some (''https://idp.example/auth?state='' @ demo_state),
                          status := Some 307\<rparr>)"
    using d [where h = demo_handler and now = demo_later and r = demo_anonymous]
      demo_state_sealed
    by (simp add: demo_anonymous_Cookie url enc auth http_Redirect_fresh demo_writer_simps)
  have presented: "Request_Cookie demo_session (cookieName demo_handler) \<noteq> Inl ErrNoCookie"
    by (simp add: demo_session_opens)
  have named: "cookieName demo_handler = ''session''"
    and off: "HandleLogoff demo_handler demo_writer demo_session = demo_writer
       \<lparr>SetCookies :=
          [\<lparr>Cookie_Name = [], Cookie_Value = [], Cookie_Expires = \<lparr>sec = 0, nsec = 0\<rparr>,
            Cookie_Path = ''/'', Cookie_Domain = ''a.example'', Cookie_Secure = True,
            Cookie_HttpOnly = True\<rparr>]\<rparr>"
    using d [where h = demo_handler and r = demo_session]
    by (simp_all add: demo_writer_simps demo_handler_simps time_Unix_eq)
  have 4: "HandleLogin demo_env demo_expired (Inr demo_nonce) demo_handler demo_writer demo_session =
     Return (demo_writer
       \<lparr>SetCookies :=
          [\<lparr>Cookie_Name = [], Cookie_Value = [], Cookie_Expires = \<lparr>sec = 0, nsec = 0\<rparr>,
            Cookie_Path = ''/'', Cookie_Domain = ''a.example'', Cookie_Secure = True,
            Cookie_HttpOnly = True\<rparr>],
        Location := Some (''https://idp.example/auth?state='' @ demo_state),
        status := Some 307\<rparr>)"
    using d [where h = demo_handler and now = demo_expired and r = demo_session
        and err = ErrCookieExpired] demo_state_sealed expired
    by (simp add: demo_session_Cookie url enc auth off http_Redirect_fresh demo_writer_simps)
  have 5: "HandleLogoff (demo_handler\<lparr>CookieName := ''sid''\<rparr>) demo_writer demo_session =
     demo_writer
       \<lparr>SetCookies :=
          [\<lparr>Cookie_Name = ''sid'', Cookie_Value = [], Cookie_Expires = \<lparr>sec = 0, nsec = 0\<rparr>,
            Cookie_Path = ''/'', Cookie_Domain = ''a.example'', Cookie_Secure = True,
            Cookie_HttpOnly = True\<rparr>]\<rparr>"
    using d [where h = "demo_handler\<lparr>CookieName := ''sid''\<rparr>" and r = demo_session]
    by (simp add: demo_writer_simps demo_handler_simps cookieName_def time_Unix_eq)
  from 1 2 3 presented named 4 5 show ?thesis by simp
qed

text \<open>
  Claim C1. The claim has the request end in a 500 response with the ACL's message when
  the ACL rejects the profile. The code does not: once the state, the code exchange and
  the profile request have succeeded and the ACL returns an error, \<^verbatim>\<open>HandleRedirect\<close>
  panics, because line 178 takes the message from the variable that line 177 compared
  with the ACL's result, and that variable is nil. Nothing is written and no cookie is
  set.
\<close>

theorem HandleRedirect_ACL_reject:
  assumes "b64_decode E (FormValue r ''state'') = Inr rawState"
    and "DecryptBytes E (StateKey h) rawState = Inr b"
    and "Exchange h (FormValue r ''code'') = Inr tok"
    and "GetUserInfo E h tok = Inr up"
    and "acl h up = Some e"
  shows "HandleRedirect E now rnd h w r = Panic"
  using assms by (simp add: HandleRedirect_def)

text \<open>The callback of the example, with an ACL that rejects everybody.\<close>

theorem HandleRedirect_ACL_reject_witness:
  "HandleRedirect demo_env demo_now (Inr demo_nonce) (demo_handler\<lparr>ACL := Some deny_all\<rparr>)
     demo_writer demo_callback = Panic"
  using HandleRedirect_ACL_reject [of demo_env demo_callback
      "demo_nonce @ demo_seal (bytes_of ''/dashboard'') demo_nonce (replicate 32 1)"
      "demo_handler\<lparr>ACL := Some deny_all\<rparr>" "bytes_of ''/dashboard''" "''tok''" demo_profile
      "ForeignError ''denied''" demo_now "Inr demo_nonce" demo_writer]
    demo_callback_flow
  by (simp add: demo_handler_simps demo_GetUserInfo acl_def deny_all_def)
     (simp add: demo_handler_def)

text \<open>
  Claim C2. The claim has the flow abort without a cookie when the profile store
  returns an error. The code does not: line 183 drops what \<^verbatim>\<open>writeProfile\<close>
  returns, so after a failed store (one that has not written the header)
  \<^verbatim>\<open>HandleRedirect\<close> sets the session cookie and redirects to the recovered URL as
  if the store had succeeded.
\<close>

theorem HandleRedirect_WriteProfile_error:
  assumes "b64_decode E (FormValue r ''state'') = Inr rawState"
    and "DecryptBytes E (StateKey h) rawState = Inr b"
    and "Exchange h (FormValue r ''code'') = Inr tok"
    and "GetUserInfo E h tok = Inr up"
    and "acl h up = None"
    and "writeProfile h w (up\<lparr>ID := Service h @ ''_'' @ Sub up\<rparr>) = (Some e, w1)"
    and "status w1 = None"
  shows "HandleRedirect E now (Inr nonce) h w r =
           Return (w1\<lparr>SetCookies := SetCookies w1 @
                        [\<lparr>Cookie_Name = cookieName h,
                          Cookie_Value = b64_encode E (nonce @ box_seal E
                            (BigEndian_bytes (sec now) @ bytes_of (Domain h) @ [space] @
                               bytes_of (Service h @ ''_'' @ Sub up)) nonce (CookieKey h)),
                          Cookie_Expires = Time_Add now (24 * Hour),
                          Cookie_Path = ''/'',
                          Cookie_Domain = Domain h,
                          Cookie_Secure = True,
                          Cookie_HttpOnly = True\<rparr>],
                      Location := Some (string_of b),
                      status := Some 307\<rparr>)"
  using assms
  by (simp add: HandleRedirect_def SetCookie_def setCookie_Inr http_SetCookie_def
      http_Redirect_def WriteHeader_def)

text \<open>The callback of the example, with a profile store that fails.\<close>

theorem HandleRedirect_WriteProfile_error_witness:
  "HandleRedirect demo_env demo_now (Inr demo_nonce)
     (demo_handler\<lparr>WriteProfile := Some failing_store\<rparr>) demo_writer demo_callback =
     Return (demo_writer
       \<lparr>SetCookies :=
          [\<lparr>Cookie_Name = ''session'',
            Cookie_Value = string_of (demo_nonce @ demo_seal demo_payload demo_nonce (replicate 32 2)),
            Cookie_Expires = \<lparr>sec = 1700086400, nsec = 5\<rparr>,
            Cookie_Path = ''/'', Cookie_Domain = ''a.example'', Cookie_Secure = True,
            Cookie_HttpOnly = True\<rparr>],
        Location := Some ''/dashboard'',
        status := Some 307\<rparr>)"
proof -
  have tb: "BigEndian_bytes (sec demo_now) @ bytes_of ''a.example'' @ [space] @
      bytes_of (''google'' @ ''_'' @ Sub demo_profile) = demo_payload"
    by (simp add: demo_payload_def demo_now_def demo_profile_def bytes_of_def space_def)
  have exp: "Time_Add demo_now (24 * Hour) = \<lparr>sec = 1700086400, nsec = 5\<rparr>"
    by (simp add: Time_Add_24h demo_now_def)
  have h: "writeProfile (demo_handler\<lparr>WriteProfile := Some failing_store\<rparr>) demo_writer p =
      (Some (ForeignError ''database down''), demo_writer)" for p
    by (simp add: writeProfile_def failing_store_def)
  show ?thesis
    using HandleRedirect_WriteProfile_error [of demo_env demo_callback
        "demo_nonce @ demo_seal (bytes_of ''/dashboard'') demo_nonce (replicate 32 1)"
        "demo_handler\<lparr>WriteProfile := Some failing_store\<rparr>" "bytes_of ''/dashboard''" "''tok''"
        demo_profile demo_writer "ForeignError ''database down''" demo_writer demo_now demo_nonce]
      demo_callback_flow tb
    by (simp add: demo_handler_simps demo_GetUserInfo acl_def h demo_writer_simps exp
        cookieName_def string_of_bytes_of)
       (simp add: demo_handler_def demo_env_def)
qed

text \<open>
  Claim C3. The claim has logoff name the cookie as issuance does, also when the
  cookie-name field is empty. The code does not: \<^verbatim>\<open>HandleLogoff\<close> takes the field as
  it is where \<^verbatim>\<open>setCookie\<close> and \<^verbatim>\<open>Cookie\<close> go through \<^verbatim>\<open>cookieName\<close>, so with
  an empty field logoff hands over a cookie with the empty name and issuance one named
  \<open>session\<close>. Path, domain, the empty value and the expiry at the epoch are as claimed.
\<close>

theorem HandleLogoff_unnamed:
  assumes "CookieName h = []" and "status w = None"
  shows "HandleLogoff h w r = w\<lparr>SetCookies := SetCookies w @
           [\<lparr>Cookie_Name = [], Cookie_Value = [], Cookie_Expires = time_Unix 0,
             Cookie_Path = ''/'', Cookie_Domain = Domain h, Cookie_Secure = True,
             Cookie_HttpOnly = True\<rparr>]\<rparr> \<and>
         setCookie E now (Inr nonce) h w subj = Return (w\<lparr>SetCookies := SetCookies w @
           [\<lparr>Cookie_Name = ''session'',
             Cookie_Value = b64_encode E (nonce @ box_seal E
               (BigEndian_bytes (sec now) @ bytes_of (Domain h) @ [space] @ subj) nonce
               (CookieKey h)),
             Cookie_Expires = Time_Add now (24 * Hour),
             Cookie_Path = ''/'', Cookie_Domain = Domain h, Cookie_Secure = True,
             Cookie_HttpOnly = True\<rparr>]\<rparr>)"
  using assms
  by (simp add: HandleLogoff_fresh setCookie_Inr http_SetCookie_def cookieName_def)

text \<open>The handler of the example, whose cookie-name field is empty.\<close>

theorem HandleLogoff_unnamed_witness:
  "map Cookie_Name (SetCookies (HandleLogoff demo_handler demo_writer demo_session)) = [[]] \<and>
   setCookie demo_env demo_now (Inr demo_nonce) demo_handler demo_writer (bytes_of ''google_42'') =
     Return (demo_writer
       \<lparr>SetCookies :=
          [\<lparr>Cookie_Name = ''session'',
            Cookie_Value = string_of (demo_nonce @ demo_seal demo_payload demo_nonce (replicate 32 2)),
            Cookie_Expires = \<lparr>sec = 1700086400, nsec = 5\<rparr>,
            Cookie_Path = ''/'', Cookie_Domain = ''a.example'', Cookie_Secure = True,
            Cookie_HttpOnly = True\<rparr>]\<rparr>)"
proof -
  have tb: "BigEndian_bytes (sec demo_now) @ bytes_of ''a.example'' @ [space] @
      bytes_of ''google_42'' = demo_payload"
    by (simp add: demo_payload_def demo_now_def bytes_of_def space_def)
  have exp: "Time_Add demo_now (24 * Hour) = \<lparr>sec = 1700086400, nsec = 5\<rparr>"
    by (simp add: Time_Add_24h demo_now_def)
  show ?thesis
    using HandleLogoff_unnamed [of demo_handler demo_writer demo_session demo_env demo_now
        demo_nonce "bytes_of ''google_42''"] tb
    by (simp add: demo_handler_simps demo_writer_simps exp) (simp add: demo_env_def)
qed

end
